theory Spec2Isabelle
  imports
    Complex_Main
    "HOL-Library.Sublist"
    "HOL-Library.Char_ord"
    "HOL-Library.List_Lexorder"
begin

section \<open>Plain JavaScript objects used as dictionaries\<close>

text \<open>
  The dashboard keeps its tables (class visibility, class counts, colour schemes) in plain
  objects and indexes them with strings read from the data files. A read \<open>obj[k]\<close> first
  looks for an own member and then falls back to \<open>Object.prototype\<close>, whose members are
  all truthy objects or functions; \<open>k in obj\<close> follows the same chain. A write of a
  primitive under the key \<open>__proto__\<close> is swallowed by the accessor of that name; every
  other write creates or replaces an own member.
\<close>

definition Object_prototype_names :: "string list" where
  "Object_prototype_names =
     [''constructor'', ''__proto__'', ''hasOwnProperty'', ''isPrototypeOf'',
      ''propertyIsEnumerable'', ''toLocaleString'', ''toString'', ''valueOf'',
      ''__defineGetter__'', ''__defineSetter__'', ''__lookupGetter__'', ''__lookupSetter__'']"

datatype 'a member = Own 'a | Inherited | Undefined

definition js_get :: "(string \<rightharpoonup> 'a) \<Rightarrow> string \<Rightarrow> 'a member" where
  "js_get obj k =
     (case obj k of
        Some v \<Rightarrow> Own v
      | None \<Rightarrow> if k \<in> set Object_prototype_names then Inherited else Undefined)"

definition js_in :: "string \<Rightarrow> (string \<rightharpoonup> 'a) \<Rightarrow> bool" where
  "js_in k obj = (obj k \<noteq> None \<or> k \<in> set Object_prototype_names)"

definition js_set :: "(string \<rightharpoonup> 'a) \<Rightarrow> string \<Rightarrow> 'a \<Rightarrow> (string \<rightharpoonup> 'a)" where
  "js_set obj k v = (if k = ''__proto__'' then obj else obj(k \<mapsto> v))"

text \<open>Truthiness of a boolean-valued and of a string-valued member.\<close>

definition truthy_bool :: "bool member \<Rightarrow> bool" where
  "truthy_bool p = (case p of Own b \<Rightarrow> b | Inherited \<Rightarrow> True | Undefined \<Rightarrow> False)"

definition truthy_str :: "string member \<Rightarrow> bool" where
  "truthy_str p = (case p of Own s \<Rightarrow> s \<noteq> [] | Inherited \<Rightarrow> True | Undefined \<Rightarrow> False)"

text \<open>
  A tally \<open>(counts[k] || 0) + 1\<close>. Under an inherited name the left operand is a function,
  so \<open>+\<close> concatenates strings and the member stops being a number.
\<close>

datatype jscount = Count nat | NonNumeric

definition tally :: "(string \<rightharpoonup> jscount) \<Rightarrow> string \<Rightarrow> (string \<rightharpoonup> jscount)" where
  "tally counts k =
     js_set counts k
       (case js_get counts k of
          Own (Count n) \<Rightarrow> Count (n + 1)
        | Own NonNumeric \<Rightarrow> NonNumeric
        | Inherited \<Rightarrow> NonNumeric
        | Undefined \<Rightarrow> Count 1)"


section \<open>Spatial viewer: state (spatial-state.js)\<close>

text \<open>
  Numbers of the geometry files are modelled as reals: the viewer only compares them and,
  in the auto-fit, does arithmetic whose rounding is not part of any property below. An
  optional numeric field is \<open>None\<close> when \<open>typeof\<close> of it is not \<open>'number'\<close>.
\<close>

record cell =
  cell_id :: "nat option"
  cell_x :: real
  cell_y :: real
  cell_z :: "real option"
  cell_r :: "real option"
  cell_class :: string
  cell_gene_counts :: "real option"

text \<open>
  A palette entry is an RGB triple. The fallback triple comes out of \<open>d3.hsl(h, s/100,
  l/100).rgb()\<close>, a library call, and is kept as the call's three arguments.
\<close>

datatype colour = Rgb nat nat nat | HslRgb real real real

record spatial_state =
  cells :: "cell list"
  numCells :: nat
  sv_currentRun :: "string option"
  cellClassColors :: "string \<rightharpoonup> colour"
  cellClassCounts :: "string \<rightharpoonup> jscount"
  cellClassVisible :: "string \<rightharpoonup> bool"
  deckgl :: bool
  geom_ready :: bool
  geom_is3D :: bool
  geom_zValues :: "real list"
  geom_defaultRadius :: real
  viewFitted :: bool
  planeFilterEnabled :: bool
  selectedPlane :: "real option"
  useGeneFilter :: bool
  minGeneCount :: real
  legendFilter :: string
  yaoColorScheme :: "(string \<rightharpoonup> string) option"

definition initial_state :: spatial_state where
  "initial_state =
     \<lparr> cells = [], numCells = 0, sv_currentRun = None,
       cellClassColors = Map.empty, cellClassCounts = Map.empty,
       cellClassVisible = Map.empty, deckgl = False,
       geom_ready = False, geom_is3D = False, geom_zValues = [],
       geom_defaultRadius = 6,
       viewFitted = False, planeFilterEnabled = False, selectedPlane = None,
       useGeneFilter = False, minGeneCount = 40, legendFilter = [],
       yaoColorScheme = None \<rparr>"

subsection \<open>updateCellClassCounts\<close>

definition init_visible :: "(string \<rightharpoonup> bool) \<Rightarrow> string \<Rightarrow> (string \<rightharpoonup> bool)" where
  "init_visible vis className =
     (if \<not> js_in className vis then js_set vis className True else vis)"

definition updateCellClassCounts :: "spatial_state \<Rightarrow> spatial_state" where
  "updateCellClassCounts s =
     (if cells s = [] then s
      else s\<lparr> cellClassCounts := foldl tally Map.empty (map cell_class (cells s)),
              cellClassVisible := foldl init_visible (cellClassVisible s) (map cell_class (cells s)) \<rparr>)"


section \<open>Spatial viewer: filtering (spatial-rendering.js)\<close>

definition plane_active :: "spatial_state \<Rightarrow> bool" where
  "plane_active s = (planeFilterEnabled s \<and> geom_is3D s \<and> selectedPlane s \<noteq> None)"

definition on_plane :: "spatial_state \<Rightarrow> cell \<Rightarrow> bool" where
  "on_plane s c =
     (let cellZ = (case cell_z c of Some v \<Rightarrow> v | None \<Rightarrow> 0)
      in Some cellZ = selectedPlane s)"

definition gene_ok :: "spatial_state \<Rightarrow> cell \<Rightarrow> bool" where
  "gene_ok s c =
     (let thr = (if minGeneCount s \<noteq> 0 then minGeneCount s else 0)
      in case cell_gene_counts c of Some g \<Rightarrow> g \<ge> thr | None \<Rightarrow> False)"

definition class_shown :: "spatial_state \<Rightarrow> cell \<Rightarrow> bool" where
  "class_shown s c = truthy_bool (js_get (cellClassVisible s) (cell_class c))"

text \<open>The three filtering statements of \<open>render\<close>, in the order of the source.\<close>

definition visibleCells :: "spatial_state \<Rightarrow> cell list" where
  "visibleCells s =
     (let v0 = filter (class_shown s) (cells s);
          v1 = (if plane_active s then filter (on_plane s) v0 else v0);
          v2 = (if useGeneFilter s then filter (gene_ok s) v1 else v1)
      in v2)"

definition getLegendFilteredCells :: "spatial_state \<Rightarrow> cell list" where
  "getLegendFilteredCells s =
     (let c0 = cells s;
          c1 = (if plane_active s then filter (on_plane s) c0 else c0);
          c2 = (if useGeneFilter s then filter (gene_ok s) c1 else c1)
      in c2)"

text \<open>The tally that \<open>updateLegend\<close> prints beside each class.\<close>

definition legend_counts :: "spatial_state \<Rightarrow> (string \<rightharpoonup> jscount)" where
  "legend_counts s = foldl tally Map.empty (map cell_class (getLegendFilteredCells s))"

text \<open>The number of cells of one class in a list of cells.\<close>

definition class_count :: "string \<Rightarrow> cell list \<Rightarrow> nat" where
  "class_count k cs = length (filter (\<lambda>c. cell_class c = k) cs)"


section \<open>Spatial viewer: colours (spatial-colors.js)\<close>

text \<open>
  \<open>parseInt(hex, 16)\<close>: leading white space, a sign and a \<open>0x\<close> prefix are skipped, then the
  longest run of hexadecimal digits is read; no digit at all gives \<open>NaN\<close> (here \<open>None\<close>).
\<close>

definition js_whitespace :: "char \<Rightarrow> bool" where
  "js_whitespace c =
     (c \<in> set [CHR '' '', CHR 0x09, CHR 0x0A, CHR 0x0B, CHR 0x0C, CHR 0x0D])"

definition is_hex_digit :: "char \<Rightarrow> bool" where
  "is_hex_digit c =
     ((CHR ''0'' \<le> c \<and> c \<le> CHR ''9'') \<or> (CHR ''a'' \<le> c \<and> c \<le> CHR ''f'')
      \<or> (CHR ''A'' \<le> c \<and> c \<le> CHR ''F''))"

definition hex_digit_val :: "char \<Rightarrow> nat" where
  "hex_digit_val c =
     (if CHR ''0'' \<le> c \<and> c \<le> CHR ''9'' then of_char c - 48
      else if CHR ''a'' \<le> c \<and> c \<le> CHR ''f'' then of_char c - 87
      else of_char c - 55)"

definition parseInt16 :: "string \<Rightarrow> int option" where
  "parseInt16 str =
     (let s1 = dropWhile js_whitespace str;
          neg = (case s1 of c # _ \<Rightarrow> c = CHR ''-'' | [] \<Rightarrow> False);
          s2 = (case s1 of c # cs \<Rightarrow> if c = CHR ''-'' \<or> c = CHR ''+'' then cs else s1 | [] \<Rightarrow> s1);
          s3 = (if prefix ''0x'' s2 \<or> prefix ''0X'' s2 then drop 2 s2 else s2);
          ds = takeWhile is_hex_digit s3;
          v = int (foldl (\<lambda>a c. 16 * a + hex_digit_val c) 0 ds)
      in if ds = [] then None else Some (if neg then - v else v))"

text \<open>
  \<open>hexToRgb\<close>. The shifts and masks work on the 32-bit pattern of the parsed number
  (\<open>NaN\<close> gives 0), written here as its residue modulo \<open>2 ^ 32\<close>.
\<close>

definition hexToRgb :: "string \<Rightarrow> colour" where
  "hexToRgb hex0 =
     (let hex = (case hex0 of c # cs \<Rightarrow> if c = CHR ''#'' then cs else hex0 | [] \<Rightarrow> hex0);
          bigint = (case parseInt16 hex of None \<Rightarrow> 0 | Some v \<Rightarrow> v mod 4294967296);
          r = (bigint div 65536) mod 256;
          g = (bigint div 256) mod 256;
          b = bigint mod 256
      in Rgb (nat r) (nat g) (nat b))"

definition js_rem :: "real \<Rightarrow> real \<Rightarrow> real" where
  "js_rem a m = a - m * of_int \<lfloor>a / m\<rfloor>"

definition fallback_colour :: "nat \<Rightarrow> nat \<Rightarrow> colour" where
  "fallback_colour n i =
     (let hueStep = 360 / real (max n 10);
          hue = js_rem (real i * hueStep) 360;
          saturation = 70 + real (i mod 3) * 10;
          lightness = 50 + real (i mod 2) * 10
      in HslRgb hue saturation lightness)"

text \<open>
  The body of \<open>classNames.forEach\<close> in \<open>generateColorPalette\<close>. Handing an inherited
  member (a function) to \<open>hexToRgb\<close> raises a TypeError, which ends the loop with the
  entries written so far; the flag reports it.
\<close>

fun assign_colours ::
  "(string \<rightharpoonup> string) option \<Rightarrow> nat \<Rightarrow> nat \<Rightarrow> string list \<Rightarrow> (string \<rightharpoonup> colour)
     \<Rightarrow> (string \<rightharpoonup> colour) \<times> bool" where
  "assign_colours scheme n i [] pal = (pal, False)"
| "assign_colours scheme n i (className # rest) pal =
     (case scheme of
        None \<Rightarrow> assign_colours scheme n (i + 1) rest (js_set pal className (fallback_colour n i))
      | Some yao \<Rightarrow>
          (case js_get yao className of
             Own hexColor \<Rightarrow>
               if hexColor \<noteq> []
               then assign_colours scheme n (i + 1) rest (js_set pal className (hexToRgb hexColor))
               else assign_colours scheme n (i + 1) rest (js_set pal className (fallback_colour n i))
           | Inherited \<Rightarrow> (pal, True)
           | Undefined \<Rightarrow>
               assign_colours scheme n (i + 1) rest (js_set pal className (fallback_colour n i))))"

datatype 'a fetched = Received 'a | Failed

definition loadYaoColorScheme :: "(string \<rightharpoonup> string) fetched \<Rightarrow> spatial_state \<Rightarrow> spatial_state" where
  "loadYaoColorScheme resp s =
     (case resp of Received json \<Rightarrow> s\<lparr> yaoColorScheme := Some json \<rparr> | Failed \<Rightarrow> s)"

definition generateColorPalette ::
  "(string \<rightharpoonup> string) fetched \<Rightarrow> string list \<Rightarrow> spatial_state \<Rightarrow> spatial_state \<times> bool" where
  "generateColorPalette resp classNames s =
     (let s1 = (if yaoColorScheme s = None then loadYaoColorScheme resp s else s);
          res = assign_colours (yaoColorScheme s1) (length classNames) 0 classNames
                  (cellClassColors s1)
      in (s1\<lparr> cellClassColors := fst res \<rparr>, snd res))"

definition getColorForClass :: "spatial_state \<Rightarrow> string \<Rightarrow> colour member" where
  "getColorForClass s className =
     (case js_get (cellClassColors s) className of
        Own col \<Rightarrow> Own col
      | Inherited \<Rightarrow> Inherited
      | Undefined \<Rightarrow> Own (Rgb 128 128 128))"


section \<open>Spatial viewer: rendering and auto-fit (spatial-rendering.js)\<close>

text \<open>
  What the page offers to the viewer when a handler runs: the size of the container
  element (\<open>None\<close> when the element is missing) and whether the plane slider exists.
\<close>

record page =
  container :: "(nat \<times> nat) option"
  planeSlider :: bool

text \<open>Calls that leave the viewer's state: to deck.gl, to the document, to the console.\<close>

datatype effect =
    SetLayers "cell list"
  | SetInitialViewState real real real nat
  | LegendUpdated
  | NoDataMessage string
  | UserNotice string
  | ConsoleWarn
  | ConsoleError

text \<open>
  \<open>autoFitView\<close>. The bounds start from \<open>\<plusminus>Infinity\<close>, so after the first cell they are
  that cell's coordinates; the fold runs over the remaining cells.
\<close>

definition autoFitView :: "page \<Rightarrow> spatial_state \<Rightarrow> effect list" where
  "autoFitView pg s =
     (case cells s of
        [] \<Rightarrow> []
      | c0 # cs \<Rightarrow>
          (let minX = foldl (\<lambda>m c. min m (cell_x c)) (cell_x c0) cs;
               minY = foldl (\<lambda>m c. min m (cell_y c)) (cell_y c0) cs;
               maxX = foldl (\<lambda>m c. max m (cell_x c)) (cell_x c0) cs;
               maxY = foldl (\<lambda>m c. max m (cell_y c)) (cell_y c0) cs;
               width = maxX - minX;
               height = maxY - minY;
               paddedMinX = minX - width * 0.1;
               paddedMinY = minY - height * 0.1;
               paddedMaxX = maxX + width * 0.1;
               paddedMaxY = maxY + height * 0.1;
               centerX = (paddedMinX + paddedMaxX) / 2;
               centerY = (paddedMinY + paddedMaxY) / 2;
               containerWidth = (case container pg of Some (w, h) \<Rightarrow> real w | None \<Rightarrow> 0);
               containerHeight = (case container pg of Some (w, h) \<Rightarrow> real h | None \<Rightarrow> 0);
               dataWidth = paddedMaxX - paddedMinX;
               dataHeight = paddedMaxY - paddedMinY
           in if containerWidth > 0 \<and> containerHeight > 0 \<and> dataWidth > 0 \<and> dataHeight > 0
              then [SetInitialViewState centerX centerY
                      (min (log 2 (containerWidth / dataWidth))
                           (log 2 (containerHeight / dataHeight))) 1000]
              else [SetInitialViewState centerX centerY (- 1) 0]))"

definition render :: "page \<Rightarrow> spatial_state \<Rightarrow> spatial_state \<times> effect list" where
  "render pg s =
     (if \<not> deckgl s \<or> cells s = [] then (s, [ConsoleWarn])
      else if \<not> viewFitted s
      then (s\<lparr> viewFitted := True \<rparr>, SetLayers (visibleCells s) # autoFitView pg s)
      else (s, [SetLayers (visibleCells s)]))"

definition toggleClassVisibility :: "page \<Rightarrow> string \<Rightarrow> spatial_state \<Rightarrow> spatial_state \<times> effect list" where
  "toggleClassVisibility pg className s =
     (let s1 = s\<lparr> cellClassVisible :=
                   js_set (cellClassVisible s) className
                     (\<not> truthy_bool (js_get (cellClassVisible s) className)) \<rparr>;
          res = render pg s1
      in (fst res, LegendUpdated # snd res))"

definition showAllClasses :: "page \<Rightarrow> spatial_state \<Rightarrow> spatial_state \<times> effect list" where
  "showAllClasses pg s =
     (let s1 = s\<lparr> cellClassVisible := map_option (\<lambda>_. True) \<circ> cellClassVisible s \<rparr>;
          res = render pg s1
      in (fst res, LegendUpdated # snd res))"

definition hideAllClasses :: "page \<Rightarrow> spatial_state \<Rightarrow> spatial_state \<times> effect list" where
  "hideAllClasses pg s =
     (let s1 = s\<lparr> cellClassVisible := map_option (\<lambda>_. False) \<circ> cellClassVisible s \<rparr>;
          res = render pg s1
      in (fst res, LegendUpdated # snd res))"

definition initializeDeck :: "page \<Rightarrow> spatial_state \<Rightarrow> spatial_state \<times> effect list" where
  "initializeDeck pg s = render pg (s\<lparr> deckgl := True \<rparr>)"


section \<open>Spatial viewer: loading a run (spatial-loader.js)\<close>

text \<open>The parsed \<open>data/<run>_cells.json\<close>; every member may be missing.\<close>

record geometry =
  g_cells :: "cell list option"
  g_z_values :: "real list option"
  g_default_radius :: "real option"

definition showNoDataMessage :: "page \<Rightarrow> string \<Rightarrow> effect list" where
  "showNoDataMessage pg runId = (if container pg = None then [] else [NoDataMessage runId])"

text \<open>
  \<open>loadRunData\<close>, run to completion. A failed fetch (network error, a status that is not
  ok, or a body that is not JSON) throws before the first assignment. The result is the
  new state, the calls made, and the boolean the function returns.
\<close>

definition loadRunData ::
  "page \<Rightarrow> string \<Rightarrow> geometry fetched \<Rightarrow> (string \<rightharpoonup> string) fetched \<Rightarrow> spatial_state
     \<Rightarrow> spatial_state \<times> effect list \<times> bool" where
  "loadRunData pg runId resp scheme_resp s =
     (case resp of
        Failed \<Rightarrow> (s, ConsoleError # showNoDataMessage pg runId, False)
      | Received data \<Rightarrow>
          (let cs = (case g_cells data of Some l \<Rightarrow> l | None \<Rightarrow> []);
               zs = (case g_z_values data of Some l \<Rightarrow> l | None \<Rightarrow> []);
               rad = (case g_default_radius data of
                        Some d \<Rightarrow> if d \<noteq> 0 then d else 6 | None \<Rightarrow> 6);
               s1 = s\<lparr> sv_currentRun := Some runId,
                        cells := cs,
                        numCells := length cs,
                        geom_ready := True,
                        geom_zValues := zs,
                        geom_defaultRadius := rad,
                        geom_is3D := (length zs > 1),
                        viewFitted := False,
                        planeFilterEnabled := False,
                        selectedPlane := None \<rparr>;
               classNames = sort (remdups (map cell_class (cells s1)));
               pal = generateColorPalette scheme_resp classNames s1
           in if snd pal
              then (fst pal, ConsoleError # showNoDataMessage pg runId, False)
              else (let s3 = updateCellClassCounts (fst pal);
                        res = render pg s3
                    in (fst res, LegendUpdated # snd res, True))))"


section \<open>Spatial viewer: controls and the dashboard's hooks into the viewer\<close>

text \<open>\<open>setPlaneFilter\<close> and the two plane listeners of the controls module.\<close>

definition setPlaneFilter :: "page \<Rightarrow> bool \<Rightarrow> spatial_state \<Rightarrow> spatial_state \<times> effect list" where
  "setPlaneFilter pg enabled s =
     (let s1 = s\<lparr> planeFilterEnabled := enabled \<rparr>
      in if planeFilterEnabled s1
         then (case geom_zValues s1 of
                 [] \<Rightarrow> (s1\<lparr> planeFilterEnabled := False \<rparr>,
                        [UserNotice ''No plane data available for this run.''])
               | z0 # zs \<Rightarrow>
                   (let minP = foldl min z0 zs;
                        maxP = foldl max z0 zs;
                        s2 = (if planeSlider pg \<and> selectedPlane s1 = None
                              then s1\<lparr> selectedPlane := Some (of_int \<lfloor>(minP + maxP) / 2\<rfloor>) \<rparr>
                              else s1)
                    in render pg s2))
         else render pg (s1\<lparr> selectedPlane := None \<rparr>))"

definition planeToggleClick :: "page \<Rightarrow> spatial_state \<Rightarrow> spatial_state \<times> effect list" where
  "planeToggleClick pg s =
     (if \<not> geom_is3D s \<or> geom_zValues s = []
      then (s, [UserNotice ''Plane filter is available only for 3D data.''])
      else setPlaneFilter pg (\<not> planeFilterEnabled s) s)"

definition planeSliderInput :: "page \<Rightarrow> int \<Rightarrow> spatial_state \<Rightarrow> spatial_state \<times> effect list" where
  "planeSliderInput pg v s = render pg (s\<lparr> selectedPlane := Some (of_int v) \<rparr>)"

definition legendFilterInput :: "string \<Rightarrow> spatial_state \<Rightarrow> spatial_state \<times> effect list" where
  "legendFilterInput txt s = (s\<lparr> legendFilter := txt \<rparr>, [LegendUpdated])"

text \<open>
  The part of the dashboard's filter-button listener that reaches into the viewer; the
  threshold is the metadata's \<open>min_gene_counts\<close> when that is a number, else 40.
\<close>

definition filterButtonClick ::
  "page \<Rightarrow> string \<Rightarrow> real option \<Rightarrow> spatial_state \<Rightarrow> spatial_state \<times> effect list" where
  "filterButtonClick pg selected min_gene_counts s =
     (let thr = (case min_gene_counts of Some m \<Rightarrow> m | None \<Rightarrow> 40);
          s1 = s\<lparr> useGeneFilter := (selected = ''high_gene''), minGeneCount := thr \<rparr>;
          res = render pg s1
      in (fst res, snd res @ [LegendUpdated]))"

text \<open>
  The animation-frame callback that \<open>switchTab\<close> schedules when the tab
  \<open>flowchartSpatial\<close> is opened; other tabs leave the viewer alone.
\<close>

definition switchTab_reset :: "spatial_state \<Rightarrow> spatial_state" where
  "switchTab_reset s = s\<lparr> viewFitted := False \<rparr>"

definition switchTab :: "page \<Rightarrow> string \<Rightarrow> spatial_state \<Rightarrow> spatial_state \<times> effect list" where
  "switchTab pg tabId s =
     (if tabId = ''flowchartSpatial'' then render pg (switchTab_reset s) else (s, []))"

text \<open>Everything that can happen to the viewer's state, one constructor per handler.\<close>

datatype event =
    LoadRunData string "geometry fetched" "(string \<rightharpoonup> string) fetched"
  | InitializeDeck
  | Render
  | ToggleClassVisibility string
  | ShowAllClasses
  | HideAllClasses
  | PlaneToggleClick
  | PlaneSliderInput int
  | LegendFilterInput string
  | FilterButtonClick string "real option"
  | SwitchTab string
  | WindowResize

fun step :: "page \<Rightarrow> event \<Rightarrow> spatial_state \<Rightarrow> spatial_state \<times> effect list" where
  "step pg (LoadRunData runId resp scheme_resp) s =
     (let res = loadRunData pg runId resp scheme_resp s in (fst res, fst (snd res)))"
| "step pg InitializeDeck s = initializeDeck pg s"
| "step pg Render s = render pg s"
| "step pg (ToggleClassVisibility className) s = toggleClassVisibility pg className s"
| "step pg ShowAllClasses s = showAllClasses pg s"
| "step pg HideAllClasses s = hideAllClasses pg s"
| "step pg PlaneToggleClick s = planeToggleClick pg s"
| "step pg (PlaneSliderInput v) s = planeSliderInput pg v s"
| "step pg (LegendFilterInput txt) s = legendFilterInput txt s"
| "step pg (FilterButtonClick selected m) s = filterButtonClick pg selected m s"
| "step pg (SwitchTab tabId) s = switchTab pg tabId s"
| "step pg WindowResize s = (s, [])"

definition is_auto_fit :: "effect \<Rightarrow> bool" where
  "is_auto_fit e = (case e of SetInitialViewState _ _ _ _ \<Rightarrow> True | _ \<Rightarrow> False)"


section \<open>Dashboard: parameter values as JavaScript numbers\<close>

text \<open>
  The resolver compares parameter values with \<open>===\<close> and prints them into look-up keys,
  and does no arithmetic on them. A finite number is therefore kept as the decimal that
  \<open>Number::toString\<close> prints: a sign, the digits \<open>d\<^sub>1 \<dots> d\<^sub>k\<close> without leading or
  trailing zero, and the exponent \<open>n\<close> of the value \<open>0.d\<^sub>1 \<dots> d\<^sub>k \<times> 10\<^sup>n\<close>; zero has no
  digits. Two decimal tokens of at most 15 significant digits denote the same double
  exactly when they have the same such form, which covers every value of the parameter
  table and of the run table.
\<close>

datatype jsnum = NaN | Infinity bool | Num bool "nat list" int

definition js_zero :: jsnum where
  "js_zero = Num False [] 0"

definition strict_eq :: "jsnum \<Rightarrow> jsnum \<Rightarrow> bool" where
  "strict_eq a b = (a \<noteq> NaN \<and> b \<noteq> NaN \<and> a = b)"

definition is_digit :: "char \<Rightarrow> bool" where
  "is_digit c = (CHR ''0'' \<le> c \<and> c \<le> CHR ''9'')"

definition digit_val :: "char \<Rightarrow> nat" where
  "digit_val c = of_char c - 48"

definition digit_char :: "nat \<Rightarrow> char" where
  "digit_char d = ''0123456789'' ! d"

definition decimal_value :: "string \<Rightarrow> nat" where
  "decimal_value ds = foldl (\<lambda>a c. 10 * a + digit_val c) 0 ds"

definition normalise :: "bool \<Rightarrow> nat list \<Rightarrow> int \<Rightarrow> jsnum" where
  "normalise neg ds n =
     (let ds1 = dropWhile (\<lambda>d. d = 0) ds;
          n1 = n - int (length ds - length ds1);
          ds2 = rev (dropWhile (\<lambda>d. d = 0) (rev ds1))
      in if ds2 = [] then js_zero else Num neg ds2 n1)"

text \<open>
  The longest prefix that is a \<open>StrDecimalLiteral\<close>, with the text after it: an optional
  sign, then \<open>Infinity\<close> or digits with an optional fraction and an optional exponent.
\<close>

definition scan_decimal :: "string \<Rightarrow> (jsnum \<times> string) option" where
  "scan_decimal str =
     (let neg = (case str of c # _ \<Rightarrow> c = CHR ''-'' | [] \<Rightarrow> False);
          s1 = (case str of c # cs \<Rightarrow> if c = CHR ''-'' \<or> c = CHR ''+'' then cs else str
                | [] \<Rightarrow> str);
          ip = takeWhile is_digit s1;
          r1 = dropWhile is_digit s1;
          has_dot = (case r1 of c # _ \<Rightarrow> c = CHR ''.'' | [] \<Rightarrow> False);
          fp = (if has_dot then takeWhile is_digit (tl r1) else []);
          r2 = (if has_dot then dropWhile is_digit (tl r1) else r1);
          has_e = (case r2 of c # _ \<Rightarrow> c = CHR ''e'' \<or> c = CHR ''E'' | [] \<Rightarrow> False);
          r3 = tl r2;
          eneg = (case r3 of c # _ \<Rightarrow> c = CHR ''-'' | [] \<Rightarrow> False);
          r4 = (case r3 of c # cs \<Rightarrow> if c = CHR ''-'' \<or> c = CHR ''+'' then cs else r3
                | [] \<Rightarrow> r3);
          ed = takeWhile is_digit r4;
          use_e = (has_e \<and> ed \<noteq> []);
          e = (if use_e then (if eneg then - int (decimal_value ed) else int (decimal_value ed))
               else 0);
          rest = (if use_e then dropWhile is_digit r4 else r2)
      in if prefix ''Infinity'' s1 then Some (Infinity neg, drop 8 s1)
         else if ip = [] \<and> fp = [] then None
         else Some (normalise neg (map digit_val (ip @ fp)) (int (length ip) + e), rest))"

definition parseFloat :: "string \<Rightarrow> jsnum" where
  "parseFloat str =
     (case scan_decimal (dropWhile js_whitespace str) of
        Some (v, _) \<Rightarrow> v
      | None \<Rightarrow> NaN)"

text \<open>
  \<open>Number(str)\<close>: the trimmed text must be a literal as a whole, and the empty text is 0.
  The hexadecimal, octal and binary forms (\<open>0x\<dots>\<close>, \<open>0o\<dots>\<close>, \<open>0b\<dots>\<close>) are not
  covered and come out as \<open>NaN\<close>.
\<close>

definition trim :: "string \<Rightarrow> string" where
  "trim str = rev (dropWhile js_whitespace (rev (dropWhile js_whitespace str)))"

definition Number_of_string :: "string \<Rightarrow> jsnum" where
  "Number_of_string str =
     (let t = trim str
      in if t = [] then js_zero
         else case scan_decimal t of
                Some (v, rest) \<Rightarrow> if rest = [] then v else NaN
              | None \<Rightarrow> NaN)"

function nat_digits :: "nat \<Rightarrow> nat list" where
  "nat_digits n = (if n < 10 then [n] else nat_digits (n div 10) @ [n mod 10])"
  by pat_completeness auto
termination
  by (relation "measure id") auto

declare nat_digits.simps [simp del]

text \<open>\<open>Number::toString\<close> in radix 10, as a template literal applies it.\<close>

definition number_to_string :: "jsnum \<Rightarrow> string" where
  "number_to_string v =
     (case v of
        NaN \<Rightarrow> ''NaN''
      | Infinity neg \<Rightarrow> (if neg then ''-'' else []) @ ''Infinity''
      | Num neg ds n \<Rightarrow>
          if ds = [] then ''0''
          else (if neg then ''-'' else []) @
            (let k = int (length ds);
                 e = n - 1;
                 es = (if e < 0 then ''-'' else ''+'') @ map digit_char (nat_digits (nat \<bar>e\<bar>))
             in if k \<le> n \<and> n \<le> 21
                  then map digit_char ds @ replicate (nat (n - k)) CHR ''0''
                else if 0 < n \<and> n \<le> 21
                  then map digit_char (take (nat n) ds) @ ''.'' @ map digit_char (drop (nat n) ds)
                else if - 6 < n \<and> n \<le> 0
                  then ''0.'' @ replicate (nat (- n)) CHR ''0'' @ map digit_char ds
                else if k = 1
                  then map digit_char ds @ ''e'' @ es
                else digit_char (hd ds) # ''.'' @ map digit_char (tl ds) @ ''e'' @ es))"


section \<open>Dashboard: parameter table, run table, run resolution\<close>

record param =
  param_default :: jsnum
  param_values :: "jsnum list"
  displayName :: string

definition lit :: "string \<Rightarrow> jsnum" where
  "lit tok = Number_of_string tok"

definition PARAM_CONFIG :: "(string \<times> param) list" where
  "PARAM_CONFIG =
     [(''inefficiency'',
        \<lparr> param_default = lit ''0.1'',
          param_values = map lit [''0.001'', ''0.005'', ''0.01'', ''0.05'', ''0.1'', ''0.5'', ''1.0''],
          displayName = ''Inefficiency'' \<rparr>),
      (''misreadDensity'',
        \<lparr> param_default = lit ''1e-05'',
          param_values = map lit [''1e-06'', ''5e-06'', ''1e-05'', ''5e-05'', ''1e-04''],
          displayName = ''MisreadDensity'' \<rparr>),
      (''spotReg'',
        \<lparr> param_default = lit ''0.1'',
          param_values = map lit [''0.001'', ''0.01'', ''0.1'', ''0.5'', ''1.0''],
          displayName = ''SpotReg'' \<rparr>),
      (''rSpot'',
        \<lparr> param_default = lit ''2.0'',
          param_values = map lit [''0.5'', ''1.0'', ''2.0'', ''5.0'', ''10.0''],
          displayName = ''rSpot'' \<rparr>)]"

definition RUN_MAPPING :: "(string \<times> string) list" where
  "RUN_MAPPING =
     [(''default'', ''run_0''),
      (''inefficiency:0.001'', ''run_6''),
      (''inefficiency:0.005'', ''run_5''),
      (''inefficiency:0.01'', ''run_4''),
      (''inefficiency:0.05'', ''run_3''),
      (''inefficiency:0.5'', ''run_1''),
      (''inefficiency:1.0'', ''run_2''),
      (''misreadDensity:1e-06'', ''run_8''),
      (''misreadDensity:5e-06'', ''run_7''),
      (''misreadDensity:5e-05'', ''run_9''),
      (''misreadDensity:1e-04'', ''run_10''),
      (''spotReg:0.001'', ''run_11''),
      (''spotReg:0.01'', ''run_12''),
      (''spotReg:0.5'', ''run_13''),
      (''spotReg:1.0'', ''run_14''),
      (''rSpot:0.5'', ''run_15''),
      (''rSpot:1.0'', ''run_16''),
      (''rSpot:5.0'', ''run_17''),
      (''rSpot:10.0'', ''run_18'')]"

datatype js_error = TypeError

datatype console = ConsoleLog string | ConsoleWarning string

definition DEBUG :: bool where
  "DEBUG = False"

text \<open>
  \<open>getCurrentConfig\<close>: for each parameter the value of the checked radio button, if one is
  checked, parsed with \<open>parseFloat\<close>; members are created in this order.
\<close>

definition param_default_of :: "string \<Rightarrow> jsnum" where
  "param_default_of paramName =
     (case map_of PARAM_CONFIG paramName of Some p \<Rightarrow> param_default p | None \<Rightarrow> NaN)"


text \<open>
  The loop of \<open>getRunIdForConfig\<close> over \<open>Object.keys(config)\<close>. A name that the parameter
  table lacks makes \<open>PARAM_CONFIG[paramName].default\<close> throw, unless the name is inherited,
  in which case the default is \<open>undefined\<close> and differs from every number.
\<close>

fun nonDefaultParams :: "(string \<times> jsnum) list \<Rightarrow> js_error + (string \<times> jsnum) list" where
  "nonDefaultParams [] = Inr []"
| "nonDefaultParams ((paramName, paramValue) # rest) =
     (case js_get (map_of PARAM_CONFIG) paramName of
        Undefined \<Rightarrow> Inl TypeError
      | Inherited \<Rightarrow>
          (case nonDefaultParams rest of
             Inl e \<Rightarrow> Inl e
           | Inr nd \<Rightarrow> Inr ((paramName, paramValue) # nd))
      | Own p \<Rightarrow>
          (case nonDefaultParams rest of
             Inl e \<Rightarrow> Inl e
           | Inr nd \<Rightarrow>
               if \<not> strict_eq paramValue (param_default p)
               then Inr ((paramName, paramValue) # nd) else Inr nd))"

text \<open>
  \<open>getRunIdForConfig\<close>, with the run table and the debug flag as arguments; the result is
  the run identifier and what was written to the console. Every look-up key contains a
  colon, so it never names an inherited member and the read is a plain table look-up.
\<close>

definition getRunIdForConfig_in ::
  "bool \<Rightarrow> (string \<times> string) list \<Rightarrow> (string \<times> jsnum) list
     \<Rightarrow> js_error + (string \<times> console list)" where
  "getRunIdForConfig_in dbg table config =
     (case nonDefaultParams config of
        Inl e \<Rightarrow> Inl e
      | Inr nd \<Rightarrow>
          if length nd = 0 then Inr (''run_0'', [])
          else if length nd = 1 then
            (let key = fst (hd nd) @ '':'' @ number_to_string (snd (hd nd));
                 logged = (if dbg then [ConsoleLog ''Lookup key:''] else [])
             in case map_of table key of
                  Some runId \<Rightarrow>
                    if runId \<noteq> [] then Inr (runId, logged)
                    else Inr (''run_0'',
                              logged @ (if dbg then [ConsoleWarning ''Mapping not found for''] else []))
                | None \<Rightarrow>
                    Inr (''run_0'',
                         logged @ (if dbg then [ConsoleWarning ''Mapping not found for''] else [])))
          else Inr (''run_0'',
                    if dbg then [ConsoleWarning ''Multiple non-default parameters detected:'']
                    else []))"


text \<open>
  The run mapping inside \<open>onParameterChange\<close>: the key is built from the text of the radio
  button, and only the default test converts that text to a number.
\<close>

definition resolve_change_in ::
  "bool \<Rightarrow> (string \<times> string) list \<Rightarrow> string \<Rightarrow> string \<Rightarrow> string \<times> console list" where
  "resolve_change_in dbg table paramName paramValueStr =
     (let isDefault =
            (case js_get (map_of PARAM_CONFIG) paramName of
               Own p \<Rightarrow> strict_eq (Number_of_string paramValueStr) (param_default p)
             | Inherited \<Rightarrow> False
             | Undefined \<Rightarrow> False)
      in if isDefault
         then (''run_0'', if dbg then [ConsoleLog ''Default selected for''] else [])
         else (let lookupKey = paramName @ '':'' @ paramValueStr;
                   logged = (if dbg then [ConsoleLog ''Lookup key:''] else []);
                   missing = logged @
                     (if dbg then [ConsoleWarning ''Mapping not found for'',
                                   ConsoleLog ''Resetting to base run'']
                      else [])
               in case map_of table lookupKey of
                    Some runId \<Rightarrow> if runId \<noteq> [] then (runId, logged) else (''run_0'', missing)
                  | None \<Rightarrow> (''run_0'', missing)))"

definition resolve_change :: "string \<Rightarrow> string \<Rightarrow> string" where
  "resolve_change paramName paramValueStr =
     fst (resolve_change_in DEBUG RUN_MAPPING paramName paramValueStr)"


section \<open>Dashboard: comparison state\<close>

text \<open>
  A run file. Per region the class counts are kept as \<open>Object.entries\<close> lists them, once
  for all cells and once for the high-gene-count cells; a missing table is \<open>None\<close>. The
  optional transition table gives a list of flows per region and filter mode.
\<close>

record region_data =
  purity :: real
  cell_type_counts :: "(string \<times> nat) list option"
  high_gene_purity :: real
  high_gene_cell_type_counts :: "(string \<times> nat) list option"

record transition =
  t_from :: string
  t_to :: string
  t_count :: nat

record dataset =
  regions :: "string \<rightharpoonup> region_data"
  transitions :: "(string \<rightharpoonup> (string \<rightharpoonup> transition list)) option"

record metadata =
  base_run :: string
  run_ids :: "string list"
  min_gene_counts :: "real option"

text \<open>
  Datasets are objects and the comparison state holds references to them. The store lists
  every object that \<open>loadJSON\<close> has returned so far, each with the path it was fetched
  from; a reference is a position in that list, and \<open>===\<close> on datasets is equality of
  references.
\<close>

type_synonym ref = nat

record dash_state =
  store :: "(string \<times> dataset) list"
  metadata :: "metadata option"
  baseData :: "ref option"
  altData :: "ref option"
  currentRun :: "string option"
  currentRegion :: string
  currentFilter :: string
  cellColors :: "(string \<rightharpoonup> string) option"

definition initial_dash :: dash_state where
  "initial_dash =
     \<lparr> store = [], metadata = None, baseData = None, altData = None, currentRun = None,
       currentRegion = ''ca1'', currentFilter = ''all'', cellColors = None \<rparr>"

definition run_path :: "string \<Rightarrow> string" where
  "run_path runId = ''data/'' @ runId @ ''.json''"

datatype notice =
    SelectedRunShown string
  | NoDataMessageHidden
  | ConfigDiffHidden
  | ConfigDiffShown string
  | ChartsUpdated
  | SyncSpatialRun string
  | Alert string
  | ErrorLogged string

text \<open>
  \<open>init\<close>, given what the three fetches return. The listeners are installed only after
  all three have succeeded, and the two assignments that follow run without a pause.
\<close>

definition init ::
  "metadata fetched \<Rightarrow> dataset fetched \<Rightarrow> (string \<rightharpoonup> string) fetched \<Rightarrow> dash_state
     \<Rightarrow> dash_state \<times> notice list" where
  "init meta_resp base_resp colours_resp s =
     (let failed = [ErrorLogged ''Failed to initialize dashboard:'',
                    Alert ''Failed to load dashboard data. Please ensure data files are generated.'']
      in case meta_resp of
           Failed \<Rightarrow> (s, failed)
         | Received md \<Rightarrow>
             (let s1 = s\<lparr> metadata := Some md \<rparr>
              in case base_resp of
                   Failed \<Rightarrow> (s1, failed)
                 | Received d \<Rightarrow>
                     (let s2 = s1\<lparr> store := store s1 @ [(run_path (base_run md), d)],
                                    baseData := Some (length (store s1)) \<rparr>
                      in case colours_resp of
                           Failed \<Rightarrow> (s2, failed)
                         | Received cols \<Rightarrow>
                             (let s3 = s2\<lparr> cellColors := Some cols \<rparr>;
                                  s4 = s3\<lparr> altData := baseData s3,
                                           currentRun := Some (base_run md) \<rparr>
                              in (s4, [SelectedRunShown (base_run md), ConfigDiffHidden,
                                       ChartsUpdated, SyncSpatialRun (base_run md),
                                       NoDataMessageHidden])))))"

text \<open>
  \<open>onParameterChange\<close>, run to completion, given what the fetch of the run file returns
  when one is made. Chart drawing is left to the charting library.
\<close>

definition onParameterChange ::
  "string \<Rightarrow> string \<Rightarrow> dataset fetched \<Rightarrow> dash_state \<Rightarrow> dash_state \<times> notice list" where
  "onParameterChange paramName paramValueStr resp s =
     (let runId = resolve_change paramName paramValueStr
      in if runId = ''run_0''
         then (s\<lparr> altData := baseData s, currentRun := Some runId \<rparr>,
               [SelectedRunShown runId, NoDataMessageHidden, ConfigDiffHidden, ChartsUpdated,
                SyncSpatialRun runId])
         else if Some runId \<noteq> currentRun s
         then (case resp of
                 Failed \<Rightarrow>
                   (s, [SelectedRunShown runId, NoDataMessageHidden,
                        ErrorLogged (''Failed to load run '' @ runId @ '':''),
                        Alert (''Failed to load data for '' @ runId)])
               | Received d \<Rightarrow>
                   (s\<lparr> store := store s @ [(run_path runId, d)],
                       altData := Some (length (store s)),
                       currentRun := Some runId \<rparr>,
                    [SelectedRunShown runId, NoDataMessageHidden, ConfigDiffShown runId,
                     ChartsUpdated, SyncSpatialRun runId]))
         else (s, [SelectedRunShown runId, SyncSpatialRun runId]))"


section \<open>Dashboard: colour look-up\<close>

definition SIMPLE_CLASS_COLORS :: "(string \<times> string) list" where
  "SIMPLE_CLASS_COLORS =
     [(''CA1'', ''#d62728''), (''CA2'', ''#ff7f0e''), (''CA3'', ''#9467bd''),
      (''DG'', ''#2ca02c''), (''Astro'', ''#17becf''), (''Oligo'', ''#8c564b''),
      (''L5'', ''#1f77b4''), (''L6'', ''#2c3e50''), (''Other'', ''#999999''),
      (''Zero'', ''#000000'')]"

definition sankeyMapping :: "(string \<times> string) list" where
  "sankeyMapping =
     [(''CA1'', ''016 CA1-ProS Glut''), (''CA2'', ''025 CA2-FC-IG Glut''),
      (''CA3'', ''017 CA3 Glut''), (''DG'', ''037 DG Glut'')]"

text \<open>
  \<open>getCellColor\<close>. The result is a colour string, or an inherited member when the label
  is the name of one. When \<open>lookupName\<close> is such a member the scheme is indexed by the
  member's source text, which no scheme has as a key.
\<close>

definition getCellColor :: "dash_state \<Rightarrow> string \<Rightarrow> string member" where
  "getCellColor s cellType =
     (if cellType = ''Zero'' then Own ''#000000''
      else if cellType = ''Other'' then Own ''#999999''
      else
        (let lookupName =
               (case js_get (map_of sankeyMapping) cellType of
                  Own full \<Rightarrow> if full \<noteq> [] then Own full else Own cellType
                | Inherited \<Rightarrow> Inherited
                | Undefined \<Rightarrow> Own cellType);
             from_scheme =
               (case cellColors s of
                  None \<Rightarrow> Undefined
                | Some scheme \<Rightarrow>
                    (case lookupName of Own name \<Rightarrow> js_get scheme name | _ \<Rightarrow> Undefined));
             from_palette = js_get (map_of SIMPLE_CLASS_COLORS) cellType
         in if truthy_str from_scheme then from_scheme
            else if truthy_str from_palette then from_palette
            else Own ''#1f77b4''))"


section \<open>Dashboard: Sankey projection\<close>

definition simplifyClassLabel :: "string \<Rightarrow> string" where
  "simplifyClassLabel label =
     (if label = [] then ''Other''
      else if prefix ''016 CA1'' label then ''CA1''
      else if prefix ''025 CA2'' label then ''CA2''
      else if prefix ''017 CA3'' label then ''CA3''
      else if prefix ''037 DG Glut'' label \<or> prefix ''038 DG-PIR'' label then ''DG''
      else if prefix ''319 Astro'' label then ''Astro''
      else if prefix ''327 Oligo'' label then ''Oligo''
      else if prefix ''005 L5 IT'' label \<or> prefix ''022 L5 ET'' label
              \<or> prefix ''032 L5 NP'' label then ''L5''
      else if prefix ''030 L6 CT'' label \<or> prefix ''004 L6 IT'' label
              \<or> prefix ''029 L6b CTX'' label then ''L6''
      else if prefix ''Zero'' label then ''Zero''
      else ''Other'')"

definition SIMPLIFIED_CLASSES :: "string list" where
  "SIMPLIFIED_CLASSES =
     [''Astro'', ''CA1'', ''CA2'', ''CA3'', ''DG'', ''L5'', ''L6'', ''Oligo'', ''Other'', ''Zero'']"

text \<open>
  \<open>simpCounts[s] = (simpCounts[s] || 0) + count\<close> on an object whose members keep the
  order in which they were first written.
\<close>

fun add_count :: "(string \<times> nat) list \<Rightarrow> string \<Rightarrow> nat \<Rightarrow> (string \<times> nat) list" where
  "add_count [] k c = [(k, 0 + c)]"
| "add_count ((k', v) # rest) k c =
     (if k' = k then (k', (if v \<noteq> 0 then v else 0) + c) # rest
      else (k', v) # add_count rest k c)"

definition simpCounts :: "(string \<times> nat) list \<Rightarrow> (string \<times> nat) list" where
  "simpCounts counts =
     foldl (\<lambda>acc entry. add_count acc (simplifyClassLabel (fst entry)) (snd entry)) [] counts"

definition identity_transitions :: "(string \<times> nat) list \<Rightarrow> transition list" where
  "identity_transitions counts =
     map (\<lambda>entry. \<lparr> t_from = fst entry, t_to = fst entry, t_count = snd entry \<rparr>)
       (simpCounts counts)"

definition deref :: "dash_state \<Rightarrow> ref option \<Rightarrow> dataset option" where
  "deref s r =
     (case r of
        None \<Rightarrow> None
      | Some a \<Rightarrow> if a < length (store s) then Some (snd (store s ! a)) else None)"

definition filterKey :: "dash_state \<Rightarrow> string" where
  "filterKey s = (if currentFilter s = ''high_gene'' then ''high_gene'' else ''all'')"

text \<open>The transitions the alternate dataset holds for the current region and filter.\<close>

definition alt_transitions :: "dash_state \<Rightarrow> transition list option" where
  "alt_transitions s =
     (case deref s (altData s) of
        None \<Rightarrow> None
      | Some alt \<Rightarrow>
          (case transitions alt of
             None \<Rightarrow> None
           | Some tr \<Rightarrow>
               (case js_get tr (currentRegion s) of
                  Own per_filter \<Rightarrow>
                    (case js_get per_filter (filterKey s) of Own ts \<Rightarrow> Some ts | _ \<Rightarrow> None)
                | _ \<Rightarrow> None)))"

text \<open>
  The fallback branch: the base dataset's counts for the region. Reading a member of
  \<open>null\<close> or \<open>undefined\<close> throws; a missing table counts as the empty object.
\<close>

definition base_counts :: "dash_state \<Rightarrow> js_error + (string \<times> nat) list" where
  "base_counts s =
     (case deref s (baseData s) of
        None \<Rightarrow> Inl TypeError
      | Some base \<Rightarrow>
          (case js_get (regions base) (currentRegion s) of
             Undefined \<Rightarrow> Inl TypeError
           | Inherited \<Rightarrow> if filterKey s = ''high_gene'' then Inl TypeError else Inr []
           | Own data \<Rightarrow>
               (case (if filterKey s = ''high_gene'' then high_gene_cell_type_counts data
                      else cell_type_counts data) of
                  Some counts \<Rightarrow> Inr counts
                | None \<Rightarrow> Inr [])))"

record sankey =
  nodeLabels :: "string list"
  sources :: "nat member list"
  targets :: "nat member list"
  link_values :: "nat list"

definition classToBeforeIdx :: "string \<rightharpoonup> nat" where
  "classToBeforeIdx = map_of (zip SIMPLIFIED_CLASSES [0 ..< length SIMPLIFIED_CLASSES])"

definition classToAfterIdx :: "string \<rightharpoonup> nat" where
  "classToAfterIdx =
     map_of (zip SIMPLIFIED_CLASSES
               (map (\<lambda>i. i + length SIMPLIFIED_CLASSES) [0 ..< length SIMPLIFIED_CLASSES]))"

definition mapped :: "transition \<Rightarrow> bool" where
  "mapped t = (js_get classToBeforeIdx (t_from t) \<noteq> Undefined
               \<and> js_get classToAfterIdx (t_to t) \<noteq> Undefined)"

definition sankey_of :: "transition list \<Rightarrow> sankey" where
  "sankey_of ts =
     \<lparr> nodeLabels = map (\<lambda>c. c @ '' (Base)'') SIMPLIFIED_CLASSES
                    @ map (\<lambda>c. c @ '' (Alt)'') SIMPLIFIED_CLASSES,
       sources = map (\<lambda>t. js_get classToBeforeIdx (t_from t)) (filter mapped ts),
       targets = map (\<lambda>t. js_get classToAfterIdx (t_to t)) (filter mapped ts),
       link_values = map t_count (filter mapped ts) \<rparr>"

definition sankey_transitions :: "dash_state \<Rightarrow> js_error + transition list" where
  "sankey_transitions s =
     (case alt_transitions s of
        Some ts \<Rightarrow> Inr ts
      | None \<Rightarrow>
          (case base_counts s of
             Inl e \<Rightarrow> Inl e
           | Inr counts \<Rightarrow> Inr (identity_transitions counts)))"

definition renderSankeyChart :: "dash_state \<Rightarrow> js_error + sankey" where
  "renderSankeyChart s =
     (case sankey_transitions s of Inl e \<Rightarrow> Inl e | Inr ts \<Rightarrow> Inr (sankey_of ts))"


section \<open>Notions used in the statements\<close>

text \<open>
  The object that \<open>getCurrentConfig\<close> builds always has these four members in this order;
  a member is non-default when \<open>!==\<close> tells it from the parameter's default.
\<close>

definition four_params :: "jsnum \<Rightarrow> jsnum \<Rightarrow> jsnum \<Rightarrow> jsnum \<Rightarrow> (string \<times> jsnum) list" where
  "four_params a b c d =
     [(''inefficiency'', a), (''misreadDensity'', b), (''spotReg'', c), (''rSpot'', d)]"

definition non_default :: "string \<times> jsnum \<Rightarrow> bool" where
  "non_default e = (\<not> strict_eq (snd e) (param_default_of (fst e)))"

text \<open>The total count of the labels that simplify to a given class.\<close>

definition total_for :: "string \<Rightarrow> (string \<times> nat) list \<Rightarrow> nat" where
  "total_for k counts = sum_list (map snd (filter (\<lambda>e. simplifyClassLabel (fst e) = k) counts))"

definition fold_counts :: "(string \<times> nat) list \<Rightarrow> (string \<times> nat) list \<Rightarrow> (string \<times> nat) list" where
  "fold_counts acc counts =
     foldl (\<lambda>acc entry. add_count acc (simplifyClassLabel (fst entry)) (snd entry)) acc counts"

text \<open>
  The comparison state is consistent when the alternate dataset is an object of the store
  that was fetched from the file of the current run, and is the very object of the base
  dataset whenever the current run is the metadata's base run.
\<close>

definition consistent :: "dash_state \<Rightarrow> bool" where
  "consistent s =
     ((case altData s of
         None \<Rightarrow> False
       | Some a \<Rightarrow>
           (case currentRun s of
              None \<Rightarrow> False
            | Some r \<Rightarrow> a < length (store s) \<and> fst (store s ! a) = run_path r))
      \<and> (case metadata s of
            None \<Rightarrow> True
          | Some md \<Rightarrow> currentRun s = Some (base_run md) \<longrightarrow> altData s = baseData s))"

text \<open>
  A sequence of parameter changes, each with the parameter's name, the text of the chosen
  radio button and what the fetch returns if the change makes one.
\<close>

definition select_runs :: "(string \<times> string \<times> dataset fetched) list \<Rightarrow> dash_state \<Rightarrow> dash_state" where
  "select_runs ops s =
     foldl (\<lambda>s op. fst (onParameterChange (fst op) (fst (snd op)) (snd (snd op)) s)) s ops"

text \<open>
  What the induction over parameter changes carries along: the state is consistent, the
  metadata names \<open>run_0\<close> as the base run, and the base dataset is the object fetched
  from that run's file.
\<close>

definition ready :: "dash_state \<Rightarrow> bool" where
  "ready s =
     (consistent s
      \<and> (case metadata s of None \<Rightarrow> False | Some md \<Rightarrow> base_run md = ''run_0'')
      \<and> (case baseData s of
            None \<Rightarrow> False
          | Some b \<Rightarrow> b < length (store s) \<and> fst (store s ! b) = run_path ''run_0''))"

text \<open>The two events that clear \<open>viewFitted\<close>: a geometry that arrived, and opening the
  flowchart and spatial tab.\<close>

definition resets_fit :: "event \<Rightarrow> bool" where
  "resets_fit e =
     (case e of
        LoadRunData _ (Received _) _ \<Rightarrow> True
      | SwitchTab tabId \<Rightarrow> tabId = ''flowchartSpatial''
      | _ \<Rightarrow> False)"

definition loaded_cells :: "geometry \<Rightarrow> cell list" where
  "loaded_cells data = (case g_cells data of Some l \<Rightarrow> l | None \<Rightarrow> [])"

subsection \<open>Sample data\<close>

definition cell_at :: "real \<Rightarrow> real \<Rightarrow> string \<Rightarrow> real option \<Rightarrow> real option \<Rightarrow> cell" where
  "cell_at px py k pz g =
     \<lparr> cell_id = None, cell_x = px, cell_y = py, cell_z = pz, cell_r = None,
       cell_class = k, cell_gene_counts = g \<rparr>"

definition page_800_400 :: page where
  "page_800_400 = \<lparr> container = Some (800, 400), planeSlider = True \<rparr>"

definition box_state :: spatial_state where
  "box_state =
     initial_state\<lparr> cells := [cell_at 0 0 ''A'' None None, cell_at 100 50 ''B'' None None] \<rparr>"

definition zero_other_geometry :: geometry where
  "zero_other_geometry =
     \<lparr> g_cells = Some [cell_at 0 0 ''Zero'' None (Some 5), cell_at 100 50 ''Other'' None (Some 50)],
       g_z_values = None, g_default_radius = None \<rparr>"

definition red_green_scheme :: "string \<rightharpoonup> string" where
  "red_green_scheme = [''Zero'' \<mapsto> ''#ff0000'', ''Other'' \<mapsto> ''#00ff00'']"

text \<open>
  Five cells on two planes; class \<open>A\<close> is hidden, plane 2 is selected and the gene filter
  asks for ten counts.
\<close>

definition five_cells :: "cell list" where
  "five_cells =
     [cell_at 1 1 ''A'' (Some 2) (Some 12),
      cell_at 2 1 ''A'' (Some 1) (Some 30),
      cell_at 3 1 ''B'' (Some 2) (Some 10),
      cell_at 4 1 ''B'' (Some 2) (Some 9),
      cell_at 5 1 ''B'' None (Some 50)]"

definition filtered_state :: spatial_state where
  "filtered_state =
     initial_state\<lparr> cells := five_cells, numCells := 5, deckgl := True, geom_is3D := True,
                    geom_zValues := [1, 2], planeFilterEnabled := True, selectedPlane := Some 2,
                    useGeneFilter := True, minGeneCount := 10,
                    cellClassVisible := [''A'' \<mapsto> False, ''B'' \<mapsto> True] \<rparr>"

definition ca1_dataset :: dataset where
  "ca1_dataset =
     \<lparr> regions =
         [''ca1'' \<mapsto>
            \<lparr> purity = 90,
              cell_type_counts = Some [(''016 CA1-ProS Glut'', 50), (''999 Unknown'', 10)],
              high_gene_purity = 95,
              high_gene_cell_type_counts = Some [(''016 CA1-ProS Glut'', 40)] \<rparr>],
       transitions = None \<rparr>"

definition meta_run_0 :: metadata where
  "meta_run_0 = \<lparr> base_run = ''run_0'', run_ids = [''run_1'', ''run_2''], min_gene_counts = Some 40 \<rparr>"

definition meta_baseline :: metadata where
  "meta_baseline = \<lparr> base_run = ''baseline'', run_ids = [''run_1''], min_gene_counts = None \<rparr>"

definition started :: "metadata \<Rightarrow> dash_state" where
  "started md = fst (init (Received md) (Received ca1_dataset) (Received Map.empty) initial_dash)"

definition viewer0 :: spatial_state where
  "viewer0 = initial_state\<lparr> deckgl := True \<rparr>"

definition loaded :: spatial_state where
  "loaded =
     fst (loadRunData page_800_400 ''run_0'' (Received zero_other_geometry)
            (Received red_green_scheme) viewer0)"

definition hidden_zero :: spatial_state where
  "hidden_zero = viewer0\<lparr> cellClassVisible := [''Zero'' \<mapsto> False] \<rparr>"

definition two_changes :: "(string \<times> string \<times> dataset fetched) list" where
  "two_changes = [(''inefficiency'', ''0.5'', Received ca1_dataset), (''inefficiency'', ''0.1'', Failed)]"

section \<open>Run resolution\<close>

subsection \<open>Evaluating the tables\<close>

lemmas number_defs =
  lit_def Number_of_string_def trim_def js_whitespace_def scan_decimal_def is_digit_def
  normalise_def digit_val_def decimal_value_def js_zero_def parseFloat_def

lemma PARAM_CONFIG_get:
  "js_get (map_of PARAM_CONFIG) ''inefficiency'' = Own (the (map_of PARAM_CONFIG ''inefficiency''))"
  "js_get (map_of PARAM_CONFIG) ''misreadDensity'' = Own (the (map_of PARAM_CONFIG ''misreadDensity''))"
  "js_get (map_of PARAM_CONFIG) ''spotReg'' = Own (the (map_of PARAM_CONFIG ''spotReg''))"
  "js_get (map_of PARAM_CONFIG) ''rSpot'' = Own (the (map_of PARAM_CONFIG ''rSpot''))"
  by (simp_all add: js_get_def PARAM_CONFIG_def)

lemma PARAM_CONFIG_default:
  "param_default (the (map_of PARAM_CONFIG ''inefficiency'')) = param_default_of ''inefficiency''"
  "param_default (the (map_of PARAM_CONFIG ''misreadDensity'')) = param_default_of ''misreadDensity''"
  "param_default (the (map_of PARAM_CONFIG ''spotReg'')) = param_default_of ''spotReg''"
  "param_default (the (map_of PARAM_CONFIG ''rSpot'')) = param_default_of ''rSpot''"
  by (simp_all add: PARAM_CONFIG_def param_default_of_def)

lemma param_default_of_lit:
  "param_default_of ''inefficiency'' = lit ''0.1''"
  "param_default_of ''misreadDensity'' = lit ''1e-05''"
  "param_default_of ''spotReg'' = lit ''0.1''"
  "param_default_of ''rSpot'' = lit ''2.0''"
  by (simp_all add: param_default_of_def PARAM_CONFIG_def)

lemma defaults_equal_themselves:
  "strict_eq (lit ''0.1'') (lit ''0.1'')"
  "strict_eq (lit ''1e-05'') (lit ''1e-05'')"
  "strict_eq (lit ''2.0'') (lit ''2.0'')"
  by (simp_all add: number_defs strict_eq_def)

lemma parsed_values_differ:
  "\<not> strict_eq (parseFloat ''1.0'') (lit ''0.1'')"
  "\<not> strict_eq (parseFloat ''5.0'') (lit ''2.0'')"
  "\<not> strict_eq (parseFloat ''1e-06'') (lit ''1e-05'')"
  "\<not> strict_eq (parseFloat ''0.5'') (lit ''0.1'')"
  "\<not> strict_eq (parseFloat ''0.7'') (lit ''0.1'')"
  by (simp_all add: number_defs strict_eq_def)

lemma printed_values:
  "number_to_string (parseFloat ''1.0'') = ''1''"
  "number_to_string (parseFloat ''5.0'') = ''5''"
  "number_to_string (parseFloat ''1e-06'') = ''0.000001''"
  "number_to_string (parseFloat ''0.5'') = ''0.5''"
  "number_to_string (parseFloat ''0.7'') = ''0.7''"
  by (simp_all add: number_defs number_to_string_def Let_def digit_char_def eval_nat_numeral)

lemma token_values_differ:
  "\<not> strict_eq (Number_of_string ''1.0'') (lit ''0.1'')"
  "\<not> strict_eq (Number_of_string ''0.5'') (lit ''0.1'')"
  "strict_eq (Number_of_string ''0.1'') (lit ''0.1'')"
  by (simp_all add: number_defs strict_eq_def)


lemma nonDefaultParams_four:
  "nonDefaultParams (four_params a b c d) = Inr (filter non_default (four_params a b c d))"
  by (simp add: four_params_def PARAM_CONFIG_get PARAM_CONFIG_default non_default_def)





lemma RUN_MAPPING_entries:
  "map_of RUN_MAPPING ''inefficiency:1.0'' = Some ''run_2''"
  "map_of RUN_MAPPING ''inefficiency:1'' = None"
  "map_of RUN_MAPPING ''rSpot:5.0'' = Some ''run_17''"
  "map_of RUN_MAPPING ''rSpot:5'' = None"
  "map_of RUN_MAPPING ''misreadDensity:1e-06'' = Some ''run_8''"
  "map_of RUN_MAPPING ''misreadDensity:0.000001'' = None"
  "map_of RUN_MAPPING ''inefficiency:0.5'' = Some ''run_1''"
  "map_of RUN_MAPPING ''inefficiency:0.7'' = None"
  by (simp_all add: RUN_MAPPING_def)

lemma resolve_change_examples:
  "resolve_change ''inefficiency'' ''1.0'' = ''run_2''"
  "resolve_change ''inefficiency'' ''0.5'' = ''run_1''"
  "resolve_change ''inefficiency'' ''0.1'' = ''run_0''"
  by (simp_all add: resolve_change_def resolve_change_in_def PARAM_CONFIG_get
        PARAM_CONFIG_default param_default_of_lit token_values_differ RUN_MAPPING_entries)

text \<open>
  The mapping of \<open>onParameterChange\<close> looks the run up under the very text of the radio
  button: whenever that text is not the default and the table has the key, the entry is the
  result.
\<close>

lemma resolve_change_in_uses_token:
  assumes "js_get (map_of PARAM_CONFIG) p = Own pc"
    and "\<not> strict_eq (Number_of_string tok) (param_default pc)"
    and "map_of table (p @ '':'' @ tok) = Some r" and "r \<noteq> []"
  shows "fst (resolve_change_in dbg table p tok) = r"
  using assms by (simp add: resolve_change_in_def Let_def)

subsection \<open>Claim C1\<close>


subsection \<open>Claim C6\<close>

text \<open>
  C6. For every parameter configuration, that is for every four numbers (\<open>NaN\<close> and the
  infinities included) under the four parameter names, \<open>getRunIdForConfig\<close> does not throw
  and returns either \<open>run_0\<close> or a non-empty entry of the run table. With no non-default
  parameter the result is \<open>run_0\<close> whatever the table holds, so the table is not consulted;
  with one non-default parameter whose key the table lacks, and with two or more
  non-default parameters, the result is \<open>run_0\<close> as well. All that can accompany the
  result is console output, and there is none unless the debug flag is set.
\<close>

theorem getRunIdForConfig_never_fails:
  "(case getRunIdForConfig_in dbg table (four_params a b c d) of
      Inl e \<Rightarrow> False
    | Inr (rid, msgs) \<Rightarrow>
        (\<not> dbg \<longrightarrow> msgs = [])
        \<and> (rid = ''run_0'' \<or> (rid \<noteq> [] \<and> rid \<in> snd ` set table))
        \<and> (filter non_default (four_params a b c d) = [] \<longrightarrow> rid = ''run_0'' \<and> msgs = [])
        \<and> (\<forall>p v. filter non_default (four_params a b c d) = [(p, v)]
                  \<and> map_of table (p @ '':'' @ number_to_string v) = None
               \<longrightarrow> rid = ''run_0'')
        \<and> (2 \<le> length (filter non_default (four_params a b c d)) \<longrightarrow> rid = ''run_0''))"
proof -
  define nd where "nd = filter non_default (four_params a b c d)"
  consider "nd = []" | p v where "nd = [(p, v)]" | "2 \<le> length nd"
    by (cases nd rule: list.exhaust; cases "tl nd") (auto simp add: Suc_le_eq)
  then show ?thesis
  proof cases
    case 1
    then show ?thesis
      by (simp add: getRunIdForConfig_in_def nonDefaultParams_four nd_def [symmetric])
  next
    case 2
    show ?thesis
    proof (cases "map_of table (p @ '':'' @ number_to_string v)")
      case None
      with 2 show ?thesis
        by (simp add: getRunIdForConfig_in_def nonDefaultParams_four nd_def [symmetric] Let_def)
    next
      case (Some r)
      then have "(p @ '':'' @ number_to_string v, r) \<in> set table" by (rule map_of_SomeD)
      then have "r \<in> snd ` set table" by force
      with 2 Some show ?thesis
        by (simp add: getRunIdForConfig_in_def nonDefaultParams_four nd_def [symmetric] Let_def)
    qed
  next
    case 3
    then have "length nd \<noteq> 0" "length nd \<noteq> 1" by auto
    with 3 show ?thesis
      by (auto simp add: getRunIdForConfig_in_def nonDefaultParams_four nd_def [symmetric])
  qed
qed

text \<open>
  Witness for C6: all four defaults; \<open>inefficiency\<close> 0.7, which the table lacks; and
  \<open>inefficiency\<close> 0.5 together with \<open>rSpot\<close> 5.0.
\<close>

theorem getRunIdForConfig_never_fails_witness:
  "filter non_default (four_params (lit ''0.1'') (lit ''1e-05'') (lit ''0.1'') (lit ''2.0'')) = []
   \<and> getRunIdForConfig_in False RUN_MAPPING
        (four_params (lit ''0.1'') (lit ''1e-05'') (lit ''0.1'') (lit ''2.0'')) = Inr (''run_0'', [])
   \<and> filter non_default
        (four_params (parseFloat ''0.7'') (lit ''1e-05'') (lit ''0.1'') (lit ''2.0''))
        = [(''inefficiency'', parseFloat ''0.7'')]
   \<and> map_of RUN_MAPPING (''inefficiency'' @ '':'' @ number_to_string (parseFloat ''0.7'')) = None
   \<and> getRunIdForConfig_in False RUN_MAPPING
        (four_params (parseFloat ''0.7'') (lit ''1e-05'') (lit ''0.1'') (lit ''2.0''))
        = Inr (''run_0'', [])
   \<and> 2 \<le> length (filter non_default
        (four_params (parseFloat ''0.5'') (lit ''1e-05'') (lit ''0.1'') (parseFloat ''5.0'')))
   \<and> getRunIdForConfig_in False RUN_MAPPING
        (four_params (parseFloat ''0.5'') (lit ''1e-05'') (lit ''0.1'') (parseFloat ''5.0''))
        = Inr (''run_0'', [])"
proof -
  let ?c0 = "four_params (lit ''0.1'') (lit ''1e-05'') (lit ''0.1'') (lit ''2.0'')"
  let ?c1 = "four_params (parseFloat ''0.7'') (lit ''1e-05'') (lit ''0.1'') (lit ''2.0'')"
  let ?c2 = "four_params (parseFloat ''0.5'') (lit ''1e-05'') (lit ''0.1'') (parseFloat ''5.0'')"
  have f0: "filter non_default ?c0 = []"
    by (simp add: four_params_def non_default_def param_default_of_lit defaults_equal_themselves)
  have f1: "filter non_default ?c1 = [(''inefficiency'', parseFloat ''0.7'')]"
    by (simp add: four_params_def non_default_def param_default_of_lit defaults_equal_themselves
          parsed_values_differ)
  have k1: "map_of RUN_MAPPING (''inefficiency'' @ '':'' @ number_to_string (parseFloat ''0.7'')) = None"
    by (simp add: printed_values RUN_MAPPING_entries)
  have f2: "2 \<le> length (filter non_default ?c2)"
    by (simp add: four_params_def non_default_def param_default_of_lit defaults_equal_themselves
          parsed_values_differ)
  have r0: "getRunIdForConfig_in False RUN_MAPPING ?c0 = Inr (''run_0'', [])"
    using getRunIdForConfig_never_fails
            [of False RUN_MAPPING "lit ''0.1''" "lit ''1e-05''" "lit ''0.1''" "lit ''2.0''"] f0
    by (cases "getRunIdForConfig_in False RUN_MAPPING ?c0") auto
  have r1: "getRunIdForConfig_in False RUN_MAPPING ?c1 = Inr (''run_0'', [])"
    using getRunIdForConfig_never_fails
            [of False RUN_MAPPING "parseFloat ''0.7''" "lit ''1e-05''" "lit ''0.1''" "lit ''2.0''"]
          f1 k1
    by (cases "getRunIdForConfig_in False RUN_MAPPING ?c1") auto
  have r2: "getRunIdForConfig_in False RUN_MAPPING ?c2 = Inr (''run_0'', [])"
    using getRunIdForConfig_never_fails
            [of False RUN_MAPPING "parseFloat ''0.5''" "lit ''1e-05''" "lit ''0.1''"
               "parseFloat ''5.0''"] f2
    by (cases "getRunIdForConfig_in False RUN_MAPPING ?c2") auto
  from f0 f1 k1 f2 r0 r1 r2 show ?thesis by blast
qed

section \<open>Comparison state\<close>

lemma init_ready:
  assumes "base_run md = ''run_0''"
  shows "ready (fst (init (Received md) (Received base) (Received cols) initial_dash))"
  using assms by (simp add: init_def initial_dash_def ready_def consistent_def Let_def)

lemma onParameterChange_ready:
  assumes "ready s"
  shows "ready (fst (onParameterChange p tok resp s))"
proof -
  obtain md where md: "metadata s = Some md" "base_run md = ''run_0''"
    using assms by (auto simp add: ready_def split: option.splits)
  obtain b where b: "baseData s = Some b" "b < length (store s)"
      "fst (store s ! b) = run_path ''run_0''"
    using assms by (auto simp add: ready_def split: option.splits)
  show ?thesis
  proof (cases "resolve_change p tok = ''run_0''")
    case True
    then show ?thesis using md b
      by (simp add: onParameterChange_def Let_def ready_def consistent_def)
  next
    case False
    show ?thesis
    proof (cases "Some (resolve_change p tok) \<noteq> currentRun s")
      case same: False
      with False assms show ?thesis by (simp add: onParameterChange_def Let_def)
    next
      case True
      show ?thesis
      proof (cases resp)
        case Failed
        with False True assms show ?thesis by (simp add: onParameterChange_def Let_def)
      next
        case (Received d)
        with False True md b show ?thesis
          by (simp add: onParameterChange_def Let_def ready_def consistent_def nth_append)
      qed
    qed
  qed
qed

lemma select_runs_ready: "ready s \<Longrightarrow> ready (select_runs ops s)"
  unfolding select_runs_def
  by (induction ops arbitrary: s) (simp_all add: onParameterChange_ready)

lemma started_state:
  "started md =
     \<lparr> store = [(run_path (base_run md), ca1_dataset)], metadata = Some md, baseData = Some 0,
       altData = Some 0, currentRun = Some (base_run md), currentRegion = ''ca1'',
       currentFilter = ''all'', cellColors = Some Map.empty \<rparr>"
  by (simp add: started_def init_def initial_dash_def Let_def)

subsection \<open>Claim C3\<close>

text \<open>
  C3, as the code has it. Provided the metadata names \<open>run_0\<close>, the identifier that the
  resolver hard-codes for the base run, as its base run: after \<open>init\<close> and after any
  sequence of completed parameter changes, whatever their fetches return, the alternate
  dataset is an object fetched from the file of the current run, and whenever the current
  run is the base run the alternate dataset is the same object as the base dataset. Every
  prefix of the sequence is such a sequence, so no step leaves a state that is not
  consistent.
\<close>

theorem comparison_state_consistent:
  "base_run md = ''run_0'' \<Longrightarrow>
   s0 = fst (init (Received md) (Received base) (Received cols) initial_dash) \<Longrightarrow>
   consistent s0 \<and> consistent (select_runs ops s0)
   \<and> (\<exists>a r. altData (select_runs ops s0) = Some a \<and> currentRun (select_runs ops s0) = Some r
            \<and> a < length (store (select_runs ops s0))
            \<and> fst (store (select_runs ops s0) ! a) = run_path r)
   \<and> (currentRun (select_runs ops s0) = Some (base_run md)
        \<longrightarrow> altData (select_runs ops s0) = baseData (select_runs ops s0))"
proof -
  assume m: "base_run md = ''run_0''"
    and s0: "s0 = fst (init (Received md) (Received base) (Received cols) initial_dash)"
  have r0: "ready s0" unfolding s0 using m by (rule init_ready)
  then have r: "ready (select_runs ops s0)" by (rule select_runs_ready)
  from r0 have c0: "consistent s0" by (simp add: ready_def)
  from r have c: "consistent (select_runs ops s0)" by (simp add: ready_def)
  from r obtain md' where md': "metadata (select_runs ops s0) = Some md'" "base_run md' = ''run_0''"
    by (auto simp add: ready_def split: option.splits)
  from c md' m have "currentRun (select_runs ops s0) = Some (base_run md)
        \<longrightarrow> altData (select_runs ops s0) = baseData (select_runs ops s0)"
    by (simp add: consistent_def)
  moreover from c have "\<exists>a r. altData (select_runs ops s0) = Some a
            \<and> currentRun (select_runs ops s0) = Some r
            \<and> a < length (store (select_runs ops s0))
            \<and> fst (store (select_runs ops s0) ! a) = run_path r"
    by (auto simp add: consistent_def split: option.splits)
  ultimately show ?thesis using c0 c by blast
qed

text \<open>
  Witness for C3: the metadata names \<open>run_0\<close>; \<open>inefficiency\<close> 0.5 is selected and its
  run file arrives, then the default 0.1 is selected again.
\<close>

lemma two_changes_result:
  "select_runs two_changes (started meta_run_0) =
     (started meta_run_0)\<lparr> store := [(run_path ''run_0'', ca1_dataset), (run_path ''run_1'', ca1_dataset)],
                           altData := Some 0, currentRun := Some ''run_0'' \<rparr>"
  by (simp add: select_runs_def two_changes_def onParameterChange_def Let_def
        resolve_change_examples started_state meta_run_0_def)

theorem comparison_state_consistent_witness:
  "base_run meta_run_0 = ''run_0''
   \<and> started meta_run_0
       = fst (init (Received meta_run_0) (Received ca1_dataset) (Received Map.empty) initial_dash)
   \<and> consistent (select_runs two_changes (started meta_run_0))
   \<and> currentRun (select_runs two_changes (started meta_run_0)) = Some (base_run meta_run_0)
   \<and> altData (select_runs two_changes (started meta_run_0))
       = baseData (select_runs two_changes (started meta_run_0))"
proof -
  have m: "base_run meta_run_0 = ''run_0''" by (simp add: meta_run_0_def)
  have s: "started meta_run_0
       = fst (init (Received meta_run_0) (Received ca1_dataset) (Received Map.empty) initial_dash)"
    by (simp add: started_def)
  have c: "currentRun (select_runs two_changes (started meta_run_0)) = Some (base_run meta_run_0)"
    by (simp add: two_changes_result m)
  from comparison_state_consistent [OF m s, of two_changes] m s c show ?thesis by simp
qed

text \<open>
  C3 as stated fails when the metadata names another base run. With base run
  \<open>baseline\<close>, selecting the default value of a parameter sets the current run to
  \<open>run_0\<close> while the alternate dataset stays the object fetched from
  \<open>data/baseline.json\<close>.
\<close>

theorem comparison_state_counterexample:
  "currentRun (select_runs [(''inefficiency'', ''0.1'', Failed)] (started meta_baseline))
     = Some ''run_0''
   \<and> altData (select_runs [(''inefficiency'', ''0.1'', Failed)] (started meta_baseline)) = Some 0
   \<and> fst (store (select_runs [(''inefficiency'', ''0.1'', Failed)] (started meta_baseline)) ! 0)
        = ''data/baseline.json''
   \<and> \<not> consistent (select_runs [(''inefficiency'', ''0.1'', Failed)] (started meta_baseline))"
  by (simp add: select_runs_def started_state meta_baseline_def Let_def
        onParameterChange_def resolve_change_examples consistent_def run_path_def)

subsection \<open>Claim C5\<close>

text \<open>
  C5. When a parameter change needs a run file (the resolved run is neither \<open>run_0\<close> nor
  the current run) and the fetch fails, the comparison state is returned as it was, an
  alert is raised, and neither the charts nor the spatial viewer are touched; the handler
  returns normally. When no run file is needed the outcome does not depend on any fetch.
  When \<open>init\<close> cannot fetch the base run's file, the comparison state (the datasets, the
  current run, the region and the filter) stays as it was and an alert is raised. When
  \<open>loadRunData\<close> cannot fetch the geometry, the viewer's state is returned as it was, the
  function returns \<open>false\<close>, and the no-data placeholder is written into the container if
  the page has it. The state in question is that of the store the fetch feeds: the
  comparison state for a run file, the viewer's state for a geometry.
\<close>

theorem failed_fetch_leaves_state:
  "(resolve_change p tok \<noteq> ''run_0'' \<and> Some (resolve_change p tok) \<noteq> currentRun s \<longrightarrow>
      fst (onParameterChange p tok Failed s) = s
      \<and> Alert (''Failed to load data for '' @ resolve_change p tok)
          \<in> set (snd (onParameterChange p tok Failed s))
      \<and> ChartsUpdated \<notin> set (snd (onParameterChange p tok Failed s))
      \<and> SyncSpatialRun (resolve_change p tok) \<notin> set (snd (onParameterChange p tok Failed s)))
   \<and> (\<not> (resolve_change p tok \<noteq> ''run_0'' \<and> Some (resolve_change p tok) \<noteq> currentRun s) \<longrightarrow>
      onParameterChange p tok resp s = onParameterChange p tok Failed s)
   \<and> baseData (fst (init (Received md) Failed cols_resp s)) = baseData s
   \<and> altData (fst (init (Received md) Failed cols_resp s)) = altData s
   \<and> currentRun (fst (init (Received md) Failed cols_resp s)) = currentRun s
   \<and> currentRegion (fst (init (Received md) Failed cols_resp s)) = currentRegion s
   \<and> currentFilter (fst (init (Received md) Failed cols_resp s)) = currentFilter s
   \<and> store (fst (init (Received md) Failed cols_resp s)) = store s
   \<and> Alert ''Failed to load dashboard data. Please ensure data files are generated.''
        \<in> set (snd (init (Received md) Failed cols_resp s))
   \<and> loadRunData pg runId Failed scheme_resp v = (v, ConsoleError # showNoDataMessage pg runId, False)
   \<and> (container pg \<noteq> None \<longrightarrow>
        NoDataMessage runId \<in> set (fst (snd (loadRunData pg runId Failed scheme_resp v))))"
  by (auto simp add: onParameterChange_def Let_def loadRunData_def showNoDataMessage_def init_def)

text \<open>
  Witness for C5: from the started dashboard, \<open>inefficiency\<close> 0.5 needs \<open>run_1\<close> and its
  fetch fails; selecting the default needs no file; the page has the viewer's container.
\<close>

theorem failed_fetch_leaves_state_witness:
  "resolve_change ''inefficiency'' ''0.5'' \<noteq> ''run_0''
   \<and> Some (resolve_change ''inefficiency'' ''0.5'') \<noteq> currentRun (started meta_run_0)
   \<and> fst (onParameterChange ''inefficiency'' ''0.5'' Failed (started meta_run_0)) = started meta_run_0
   \<and> Alert ''Failed to load data for run_1''
        \<in> set (snd (onParameterChange ''inefficiency'' ''0.5'' Failed (started meta_run_0)))
   \<and> \<not> (resolve_change ''inefficiency'' ''0.1'' \<noteq> ''run_0''
          \<and> Some (resolve_change ''inefficiency'' ''0.1'') \<noteq> currentRun (started meta_run_0))
   \<and> onParameterChange ''inefficiency'' ''0.1'' (Received ca1_dataset) (started meta_run_0)
       = onParameterChange ''inefficiency'' ''0.1'' Failed (started meta_run_0)
   \<and> container page_800_400 \<noteq> None
   \<and> loadRunData page_800_400 ''run_1'' Failed Failed loaded
       = (loaded, [ConsoleError, NoDataMessage ''run_1''], False)"
proof -
  have h1: "resolve_change ''inefficiency'' ''0.5'' \<noteq> ''run_0''
            \<and> Some (resolve_change ''inefficiency'' ''0.5'') \<noteq> currentRun (started meta_run_0)"
    by (simp add: resolve_change_examples started_state meta_run_0_def)
  have h2: "\<not> (resolve_change ''inefficiency'' ''0.1'' \<noteq> ''run_0''
          \<and> Some (resolve_change ''inefficiency'' ''0.1'') \<noteq> currentRun (started meta_run_0))"
    by (simp add: resolve_change_examples)
  have h3: "container page_800_400 \<noteq> None" by (simp add: page_800_400_def)
  have n: "showNoDataMessage page_800_400 ''run_1'' = [NoDataMessage ''run_1'']"
    by (simp add: showNoDataMessage_def page_800_400_def)
  from failed_fetch_leaves_state
         [where p = "''inefficiency''" and tok = "''0.5''" and s = "started meta_run_0"
            and resp = "Received ca1_dataset" and pg = page_800_400 and runId = "''run_1''"
            and scheme_resp = Failed and v = loaded]
       failed_fetch_leaves_state
         [where p = "''inefficiency''" and tok = "''0.1''" and s = "started meta_run_0"
            and resp = "Received ca1_dataset" and pg = page_800_400 and runId = "''run_1''"
            and scheme_resp = Failed and v = loaded]
       h1 h2 h3 n
  show ?thesis by (simp add: resolve_change_examples)
qed

section \<open>Spatial viewer\<close>

subsection \<open>What the steps of a load keep\<close>

lemma generateColorPalette_keeps:
  "viewFitted (fst (generateColorPalette r cn s)) = viewFitted s"
  "deckgl (fst (generateColorPalette r cn s)) = deckgl s"
  "cells (fst (generateColorPalette r cn s)) = cells s"
  "cellClassVisible (fst (generateColorPalette r cn s)) = cellClassVisible s"
  by (simp_all add: generateColorPalette_def loadYaoColorScheme_def Let_def split: fetched.splits)

lemma updateCellClassCounts_keeps:
  "viewFitted (updateCellClassCounts s) = viewFitted s"
  "deckgl (updateCellClassCounts s) = deckgl s"
  "cells (updateCellClassCounts s) = cells s"
  "cellClassColors (updateCellClassCounts s) = cellClassColors s"
  by (simp_all add: updateCellClassCounts_def)

lemma updateCellClassCounts_visible:
  "cellClassVisible (updateCellClassCounts s) =
     (if cells s = [] then cellClassVisible s
      else foldl init_visible (cellClassVisible s) (map cell_class (cells s)))"
  by (simp add: updateCellClassCounts_def)

lemma render_keeps:
  "cellClassVisible (fst (render pg s)) = cellClassVisible s"
  "cellClassColors (fst (render pg s)) = cellClassColors s"
  "cells (fst (render pg s)) = cells s"
  "deckgl (fst (render pg s)) = deckgl s"
  by (simp_all add: render_def)

lemma assign_colours_ok:
  "\<forall>k \<in> set ks. k \<notin> set Object_prototype_names \<Longrightarrow> \<not> snd (assign_colours scheme n i ks pal)"
proof (induction ks arbitrary: i pal)
  case Nil
  then show ?case by simp
next
  case (Cons a ks)
  then have "a \<notin> set Object_prototype_names" by simp
  then have "\<And>yao. js_get yao a \<noteq> Inherited"
    by (simp add: js_get_def split: option.splits)
  with Cons show ?case
    by (auto split: option.splits member.splits)
qed

lemma generateColorPalette_ok:
  "\<forall>k \<in> set cn. k \<notin> set Object_prototype_names \<Longrightarrow> \<not> snd (generateColorPalette r cn s)"
  by (simp add: generateColorPalette_def Let_def assign_colours_ok)

text \<open>
  A geometry that arrived, with no class named like an inherited member, is loaded to the
  end: the palette is written, the classes are counted, and the view is rendered.
\<close>

lemma loadRunData_unfold:
  assumes "\<forall>c \<in> set (loaded_cells data). cell_class c \<notin> set Object_prototype_names"
  shows "\<exists>s1 pal. cells s1 = loaded_cells data \<and> deckgl s1 = deckgl s \<and> \<not> viewFitted s1
           \<and> cellClassVisible s1 = cellClassVisible s
           \<and> pal = generateColorPalette sr (sort (remdups (map cell_class (loaded_cells data)))) s1
           \<and> yaoColorScheme s1 = yaoColorScheme s \<and> cellClassColors s1 = cellClassColors s
           \<and> loadRunData pg runId (Received data) sr s =
               (fst (render pg (updateCellClassCounts (fst pal))),
                LegendUpdated # snd (render pg (updateCellClassCounts (fst pal))), True)"
proof -
  define s1 where "s1 = s\<lparr> sv_currentRun := Some runId,
                        cells := loaded_cells data,
                        numCells := length (loaded_cells data),
                        geom_ready := True,
                        geom_zValues := (case g_z_values data of Some l \<Rightarrow> l | None \<Rightarrow> []),
                        geom_defaultRadius :=
                          (case g_default_radius data of
                             Some d \<Rightarrow> if d \<noteq> 0 then d else 6 | None \<Rightarrow> 6),
                        geom_is3D :=
                          (length (case g_z_values data of Some l \<Rightarrow> l | None \<Rightarrow> []) > 1),
                        viewFitted := False,
                        planeFilterEnabled := False,
                        selectedPlane := None \<rparr>"
  define pal where
    "pal = generateColorPalette sr (sort (remdups (map cell_class (loaded_cells data)))) s1"
  have "\<forall>k \<in> set (sort (remdups (map cell_class (loaded_cells data)))).
          k \<notin> set Object_prototype_names"
    using assms by auto
  then have ok: "\<not> snd pal" unfolding pal_def by (rule generateColorPalette_ok)
  have "loadRunData pg runId (Received data) sr s =
               (fst (render pg (updateCellClassCounts (fst pal))),
                LegendUpdated # snd (render pg (updateCellClassCounts (fst pal))), True)"
    using ok by (simp add: loadRunData_def Let_def pal_def s1_def loaded_cells_def)
  moreover have "cells s1 = loaded_cells data" "deckgl s1 = deckgl s" "\<not> viewFitted s1"
    "cellClassVisible s1 = cellClassVisible s" "yaoColorScheme s1 = yaoColorScheme s"
    "cellClassColors s1 = cellClassColors s"
    by (simp_all add: s1_def)
  ultimately show ?thesis using pal_def by blast
qed

lemma sample_classes_plain:
  "\<forall>c \<in> set (loaded_cells zero_other_geometry). cell_class c \<notin> set Object_prototype_names"
  by (simp add: loaded_cells_def zero_other_geometry_def cell_at_def Object_prototype_names_def)

subsection \<open>Claim C10\<close>

lemma init_visible_old: "vis k = Some b \<Longrightarrow> init_visible vis k' k = Some b"
  by (auto simp add: init_visible_def js_in_def js_set_def)

lemma foldl_init_visible_old: "vis k = Some b \<Longrightarrow> foldl init_visible vis ks k = Some b"
  by (induction ks arbitrary: vis) (simp_all add: init_visible_old)

lemma proto_in_names: "''__proto__'' \<in> set Object_prototype_names"
  by (simp add: Object_prototype_names_def)

lemma init_visible_new:
  "vis k = None \<Longrightarrow>
   init_visible vis k' k = (if k' = k \<and> k \<notin> set Object_prototype_names then Some True else None)"
  using proto_in_names by (auto simp add: init_visible_def js_in_def js_set_def)

lemma foldl_init_visible_new:
  "vis k = None \<Longrightarrow>
   foldl init_visible vis ks k =
     (if k \<in> set ks \<and> k \<notin> set Object_prototype_names then Some True else None)"
proof (induction ks arbitrary: vis)
  case Nil
  then show ?case by simp
next
  case (Cons a ks)
  show ?case
  proof (cases "a = k \<and> k \<notin> set Object_prototype_names")
    case True
    then have "init_visible vis a k = Some True" using Cons.prems by (simp add: init_visible_new)
    then show ?thesis using True by (simp add: foldl_init_visible_old)
  next
    case False
    then have "init_visible vis a k = None" using Cons.prems by (simp add: init_visible_new)
    from Cons.IH [of "init_visible vis a", OF this] show ?thesis using False by auto
  qed
qed

lemma loadRunData_visible_old:
  "cellClassVisible s k = Some b \<Longrightarrow>
   cellClassVisible (fst (loadRunData pg runId resp sr s)) k = Some b"
  by (cases resp)
     (simp_all add: loadRunData_def Let_def render_keeps updateCellClassCounts_visible
        generateColorPalette_keeps foldl_init_visible_old)

lemma loadRunData_visible_new:
  assumes "cellClassVisible s k = None"
    and "\<forall>c \<in> set (loaded_cells data). cell_class c \<notin> set Object_prototype_names"
  shows "cellClassVisible (fst (loadRunData pg runId (Received data) sr s)) k =
           (if k \<in> cell_class ` set (loaded_cells data) then Some True else None)"
proof -
  from loadRunData_unfold [OF assms(2), where sr = sr and s = s and pg = pg and runId = runId]
  obtain s1 pal where u: "cells s1 = loaded_cells data" "cellClassVisible s1 = cellClassVisible s"
      "pal = generateColorPalette sr (sort (remdups (map cell_class (loaded_cells data)))) s1"
      "loadRunData pg runId (Received data) sr s =
               (fst (render pg (updateCellClassCounts (fst pal))),
                LegendUpdated # snd (render pg (updateCellClassCounts (fst pal))), True)"
    by blast
  have "cellClassVisible (fst (loadRunData pg runId (Received data) sr s)) k =
          cellClassVisible (updateCellClassCounts (fst pal)) k"
    by (simp add: u(4) render_keeps)
  also have "\<dots> = (if loaded_cells data = [] then None
                  else foldl init_visible (cellClassVisible s) (map cell_class (loaded_cells data)) k)"
    using assms(1) by (simp add: updateCellClassCounts_visible u(3) generateColorPalette_keeps u(1,2))
  also have "\<dots> = (if k \<in> cell_class ` set (loaded_cells data) then Some True else None)"
    using assms by (auto simp add: foldl_init_visible_new)
  finally show ?thesis .
qed

text \<open>
  C10. A visibility flag that a class already has is kept, with its value, by
  \<open>updateCellClassCounts\<close> and by \<open>loadRunData\<close>, whatever the fetches return; in
  particular a hidden class stays hidden across a switch of run. A class without a flag gets
  the flag \<open>true\<close> exactly when a cell of the new cell list has that class and the name is
  not one that every object inherits (such a name passes the test \<open>in\<close> without a flag).
\<close>

theorem visibility_survives_load:
  "(cellClassVisible s k = Some b \<longrightarrow>
      cellClassVisible (updateCellClassCounts s) k = Some b
      \<and> cellClassVisible (fst (loadRunData pg runId resp scheme_resp s)) k = Some b)
   \<and> (cellClassVisible s k = None \<longrightarrow>
      cellClassVisible (updateCellClassCounts s) k =
        (if k \<in> cell_class ` set (cells s) \<and> k \<notin> set Object_prototype_names
         then Some True else None))
   \<and> (cellClassVisible s k = None
       \<and> (\<forall>c \<in> set (loaded_cells data). cell_class c \<notin> set Object_prototype_names) \<longrightarrow>
      cellClassVisible (fst (loadRunData pg runId (Received data) scheme_resp s)) k =
        (if k \<in> cell_class ` set (loaded_cells data) then Some True else None))"
  by (auto simp add: updateCellClassCounts_visible foldl_init_visible_old loadRunData_visible_old
        foldl_init_visible_new loadRunData_visible_new)

text \<open>
  Witness for C10: class \<open>Zero\<close> is hidden, then a run with cells of the classes \<open>Zero\<close>
  and \<open>Other\<close> is loaded; \<open>Zero\<close> stays hidden and \<open>Other\<close> becomes visible.
\<close>

theorem visibility_survives_load_witness:
  "cellClassVisible hidden_zero ''Zero'' = Some False
   \<and> cellClassVisible hidden_zero ''Other'' = None
   \<and> list_all (\<lambda>c. cell_class c \<notin> set Object_prototype_names) (loaded_cells zero_other_geometry)
   \<and> cellClassVisible
        (fst (loadRunData page_800_400 ''run_1'' (Received zero_other_geometry) Failed hidden_zero))
        ''Zero'' = Some False
   \<and> cellClassVisible
        (fst (loadRunData page_800_400 ''run_1'' (Received zero_other_geometry) Failed hidden_zero))
        ''Other'' = Some True
   \<and> cellClassVisible (updateCellClassCounts (hidden_zero\<lparr> cells := five_cells \<rparr>)) ''A'' = Some True"
proof -
  have z: "cellClassVisible hidden_zero ''Zero'' = Some False"
    and "o": "cellClassVisible hidden_zero ''Other'' = None"
    by (simp_all add: hidden_zero_def)
  have a: "cellClassVisible (hidden_zero\<lparr> cells := five_cells \<rparr>) ''A'' = None"
    by (simp add: hidden_zero_def)
  have m: "''Other'' \<in> cell_class ` set (loaded_cells zero_other_geometry)"
    by (simp add: loaded_cells_def zero_other_geometry_def cell_at_def)
  have n: "''A'' \<in> cell_class ` set (cells (hidden_zero\<lparr> cells := five_cells \<rparr>))
           \<and> ''A'' \<notin> set Object_prototype_names"
    by (simp add: five_cells_def cell_at_def Object_prototype_names_def)
  from visibility_survives_load
         [where s = hidden_zero and k = "''Zero''" and b = False and pg = page_800_400
            and runId = "''run_1''" and resp = "Received zero_other_geometry"
            and scheme_resp = Failed and data = zero_other_geometry]
       visibility_survives_load
         [where s = hidden_zero and k = "''Other''" and b = False and pg = page_800_400
            and runId = "''run_1''" and resp = "Received zero_other_geometry"
            and scheme_resp = Failed and data = zero_other_geometry]
       visibility_survives_load
         [where s = "hidden_zero\<lparr> cells := five_cells \<rparr>" and k = "''A''" and b = False
            and pg = page_800_400 and runId = "''run_1''" and resp = "Received zero_other_geometry"
            and scheme_resp = Failed and data = zero_other_geometry]
       z "o" a m n sample_classes_plain
  show ?thesis by (simp add: list_all_iff)
qed

subsection \<open>Claim C7\<close>

lemma tally_other: "k \<noteq> k' \<Longrightarrow> tally m k' k = m k"
  by (simp add: tally_def js_set_def)

lemma tally_same:
  "k \<notin> set Object_prototype_names \<Longrightarrow>
   tally m k k =
     (case m k of None \<Rightarrow> Some (Count 1) | Some (Count n) \<Rightarrow> Some (Count (n + 1))
      | Some NonNumeric \<Rightarrow> Some NonNumeric)"
  by (auto simp add: tally_def js_set_def js_get_def Object_prototype_names_def
        split: option.splits jscount.splits)

lemma foldl_tally_Some:
  "k \<notin> set Object_prototype_names \<Longrightarrow> m k = Some (Count n) \<Longrightarrow>
   foldl tally m ks k = Some (Count (n + count_list ks k))"
proof (induction ks arbitrary: m n)
  case Nil
  then show ?case by simp
next
  case (Cons a ks)
  show ?case
  proof (cases "a = k")
    case True
    have "tally m a k = Some (Count (n + 1))"
      using True Cons.prems by (simp add: tally_same)
    from Cons.IH [of "tally m a" "n + 1", OF Cons.prems(1) this] show ?thesis using True by simp
  next
    case False
    have "tally m a k = Some (Count n)"
      using False Cons.prems by (simp add: tally_other)
    from Cons.IH [of "tally m a" n, OF Cons.prems(1) this] show ?thesis using False by simp
  qed
qed

lemma foldl_tally_None:
  "k \<notin> set Object_prototype_names \<Longrightarrow> m k = None \<Longrightarrow>
   foldl tally m ks k = (if k \<in> set ks then Some (Count (count_list ks k)) else None)"
proof (induction ks arbitrary: m)
  case Nil
  then show ?case by simp
next
  case (Cons a ks)
  show ?case
  proof (cases "a = k")
    case True
    have "tally m a k = Some (Count 1)"
      using True Cons.prems by (simp add: tally_same)
    from foldl_tally_Some [of k "tally m a" 1 ks, OF Cons.prems(1) this]
    show ?thesis using True by simp
  next
    case False
    have "tally m a k = None"
      using False Cons.prems by (simp add: tally_other)
    from Cons.IH [of "tally m a", OF Cons.prems(1) this] show ?thesis using False by simp
  qed
qed

lemma class_count_count_list: "class_count k cs = count_list (map cell_class cs) k"
  by (induction cs) (simp_all add: class_count_def)

lemma visibleCells_filter:
  "visibleCells s =
     filter (\<lambda>c. class_shown s c \<and> (plane_active s \<longrightarrow> on_plane s c)
                  \<and> (useGeneFilter s \<longrightarrow> gene_ok s c)) (cells s)"
  by (auto simp add: visibleCells_def Let_def intro!: filter_cong)

lemma getLegendFilteredCells_filter:
  "getLegendFilteredCells s =
     filter (\<lambda>c. (plane_active s \<longrightarrow> on_plane s c) \<and> (useGeneFilter s \<longrightarrow> gene_ok s c)) (cells s)"
  by (auto simp add: getLegendFilteredCells_def Let_def intro!: filter_cong)

lemma visibleCells_of_legend: "visibleCells s = filter (class_shown s) (getLegendFilteredCells s)"
  by (auto simp add: visibleCells_filter getLegendFilteredCells_filter intro!: filter_cong)

lemma class_count_split:
  "class_count k cs = class_count k (filter P cs) + class_count k (filter (\<lambda>c. \<not> P c) cs)"
  by (induction cs) (simp_all add: class_count_def)

text \<open>
  C7. The cells handed to the layer are exactly the cells that pass all three tests: the
  class's visibility flag is truthy; if the plane filter is on, the data is 3D and a plane
  is selected, the cell's z (0 when it has none) is the selected plane; if the gene filter
  is on, the cell has a gene count and it is at least the threshold. The legend's cells
  pass the second and third test only, so for every class the legend's cells are the
  rendered ones plus the hidden ones that pass those two tests, and the number the legend
  prints is their count. Applying the tests in another order gives the same list.
\<close>

theorem render_filter_composition:
  "visibleCells s =
     filter (\<lambda>c. class_shown s c \<and> (plane_active s \<longrightarrow> on_plane s c)
                  \<and> (useGeneFilter s \<longrightarrow> gene_ok s c)) (cells s)
   \<and> getLegendFilteredCells s =
     filter (\<lambda>c. (plane_active s \<longrightarrow> on_plane s c) \<and> (useGeneFilter s \<longrightarrow> gene_ok s c)) (cells s)
   \<and> class_count k (getLegendFilteredCells s) =
       class_count k (visibleCells s)
       + class_count k (filter (\<lambda>c. \<not> class_shown s c) (getLegendFilteredCells s))
   \<and> visibleCells s =
       filter (\<lambda>c. useGeneFilter s \<longrightarrow> gene_ok s c)
         (filter (class_shown s) (filter (\<lambda>c. plane_active s \<longrightarrow> on_plane s c) (cells s)))
   \<and> visibleCells s =
       filter (\<lambda>c. plane_active s \<longrightarrow> on_plane s c)
         (filter (\<lambda>c. useGeneFilter s \<longrightarrow> gene_ok s c) (filter (class_shown s) (cells s)))
   \<and> (deckgl s \<and> cells s \<noteq> [] \<longrightarrow> hd (snd (render pg s)) = SetLayers (visibleCells s))
   \<and> (k \<notin> set Object_prototype_names \<longrightarrow>
        legend_counts s k =
          (if class_count k (getLegendFilteredCells s) = 0 then None
           else Some (Count (class_count k (getLegendFilteredCells s)))))
   \<and> class_shown s c = truthy_bool (js_get (cellClassVisible s) (cell_class c))
   \<and> on_plane s c = (selectedPlane s = Some (case cell_z c of Some z \<Rightarrow> z | None \<Rightarrow> 0))
   \<and> gene_ok s c = (case cell_gene_counts c of Some g \<Rightarrow> minGeneCount s \<le> g | None \<Rightarrow> False)
   \<and> plane_active s = (planeFilterEnabled s \<and> geom_is3D s \<and> selectedPlane s \<noteq> None)"
proof -
  have p: "class_shown s c = truthy_bool (js_get (cellClassVisible s) (cell_class c))"
    "on_plane s c = (selectedPlane s = Some (case cell_z c of Some z \<Rightarrow> z | None \<Rightarrow> 0))"
    "gene_ok s c = (case cell_gene_counts c of Some g \<Rightarrow> minGeneCount s \<le> g | None \<Rightarrow> False)"
    "plane_active s = (planeFilterEnabled s \<and> geom_is3D s \<and> selectedPlane s \<noteq> None)"
    by (auto simp add: class_shown_def on_plane_def gene_ok_def plane_active_def Let_def
          split: option.splits)
  have a: "class_count k (getLegendFilteredCells s) =
       class_count k (visibleCells s)
       + class_count k (filter (\<lambda>c. \<not> class_shown s c) (getLegendFilteredCells s))"
    unfolding visibleCells_of_legend by (rule class_count_split)
  have b: "visibleCells s =
       filter (\<lambda>c. useGeneFilter s \<longrightarrow> gene_ok s c)
         (filter (class_shown s) (filter (\<lambda>c. plane_active s \<longrightarrow> on_plane s c) (cells s)))"
    unfolding visibleCells_filter by (auto intro!: filter_cong)
  have c: "visibleCells s =
       filter (\<lambda>c. plane_active s \<longrightarrow> on_plane s c)
         (filter (\<lambda>c. useGeneFilter s \<longrightarrow> gene_ok s c) (filter (class_shown s) (cells s)))"
    unfolding visibleCells_filter by (auto intro!: filter_cong)
  have d: "deckgl s \<and> cells s \<noteq> [] \<longrightarrow> hd (snd (render pg s)) = SetLayers (visibleCells s)"
    by (simp add: render_def)
  have e: "k \<notin> set Object_prototype_names \<longrightarrow>
        legend_counts s k =
          (if class_count k (getLegendFilteredCells s) = 0 then None
           else Some (Count (class_count k (getLegendFilteredCells s))))"
    by (simp add: legend_counts_def foldl_tally_None class_count_count_list count_list_0_iff)
  from a b c d e p visibleCells_filter getLegendFilteredCells_filter show ?thesis by blast
qed

text \<open>
  Witness for C7: five cells, class \<open>A\<close> hidden, plane 2 selected, gene threshold 10. One
  cell of class \<open>B\<close> is rendered; the legend counts that cell and one hidden cell of
  class \<open>A\<close>.
\<close>

lemma filtered_state_tests:
  "plane_active filtered_state" "useGeneFilter filtered_state" "deckgl filtered_state"
  "cells filtered_state = five_cells"
  by (simp_all add: filtered_state_def plane_active_def)

lemma filtered_state_cells:
  "filter (\<lambda>c. class_shown filtered_state c \<and> (plane_active filtered_state \<longrightarrow> on_plane filtered_state c)
                  \<and> (useGeneFilter filtered_state \<longrightarrow> gene_ok filtered_state c)) five_cells
     = [cell_at 3 1 ''B'' (Some 2) (Some 10)]"
  "filter (\<lambda>c. (plane_active filtered_state \<longrightarrow> on_plane filtered_state c)
                  \<and> (useGeneFilter filtered_state \<longrightarrow> gene_ok filtered_state c)) five_cells
     = [cell_at 1 1 ''A'' (Some 2) (Some 12), cell_at 3 1 ''B'' (Some 2) (Some 10)]"
  by (simp_all add: filtered_state_tests)
     (simp_all add: filtered_state_def five_cells_def cell_at_def class_shown_def js_get_def
        truthy_bool_def on_plane_def gene_ok_def Let_def)

theorem render_filter_composition_witness:
  "deckgl filtered_state \<and> cells filtered_state \<noteq> []
   \<and> plane_active filtered_state \<and> useGeneFilter filtered_state
   \<and> ''A'' \<notin> set Object_prototype_names
   \<and> visibleCells filtered_state = [cell_at 3 1 ''B'' (Some 2) (Some 10)]
   \<and> getLegendFilteredCells filtered_state
       = [cell_at 1 1 ''A'' (Some 2) (Some 12), cell_at 3 1 ''B'' (Some 2) (Some 10)]
   \<and> hd (snd (render page_800_400 filtered_state)) = SetLayers [cell_at 3 1 ''B'' (Some 2) (Some 10)]
   \<and> legend_counts filtered_state ''A'' = Some (Count 1)
   \<and> class_count ''A'' (visibleCells filtered_state) = 0"
proof -
  have n: "''A'' \<notin> set Object_prototype_names" by (simp add: Object_prototype_names_def)
  have ne: "cells filtered_state \<noteq> []" by (simp add: filtered_state_tests five_cells_def)
  have cc: "class_count ''A'' [cell_at 1 1 ''A'' (Some 2) (Some 12), cell_at 3 1 ''B'' (Some 2) (Some 10)] = 1"
    "class_count ''A'' [cell_at 3 1 ''B'' (Some 2) (Some 10)] = 0"
    by (simp_all add: class_count_def cell_at_def)
  from render_filter_composition [where s = filtered_state and k = "''A''" and pg = page_800_400]
  have v: "visibleCells filtered_state = [cell_at 3 1 ''B'' (Some 2) (Some 10)]"
    and l: "getLegendFilteredCells filtered_state
       = [cell_at 1 1 ''A'' (Some 2) (Some 12), cell_at 3 1 ''B'' (Some 2) (Some 10)]"
    and h: "deckgl filtered_state \<and> cells filtered_state \<noteq> [] \<longrightarrow>
            hd (snd (render page_800_400 filtered_state)) = SetLayers (visibleCells filtered_state)"
    and g: "''A'' \<notin> set Object_prototype_names \<longrightarrow>
        legend_counts filtered_state ''A'' =
          (if class_count ''A'' (getLegendFilteredCells filtered_state) = 0 then None
           else Some (Count (class_count ''A'' (getLegendFilteredCells filtered_state))))"
    by (simp_all add: filtered_state_tests(4) filtered_state_cells)
  from v l h g n ne cc filtered_state_tests show ?thesis by simp
qed

subsection \<open>Claim C9\<close>

lemma foldl_min_Min:
  "foldl (\<lambda>m c. min m (f c)) (a::real) cs = Min (insert a (f ` set cs))"
proof (induction cs arbitrary: a)
  case Nil
  then show ?case by simp
next
  case (Cons c cs)
  have "Min (insert (min a (f c)) (f ` set cs)) = Min (insert a (insert (f c) (f ` set cs)))"
    by (cases "f ` set cs = {}") (simp_all add: min.assoc)
  then show ?case by (simp add: Cons.IH)
qed

lemma foldl_max_Max:
  "foldl (\<lambda>m c. max m (f c)) (a::real) cs = Max (insert a (f ` set cs))"
proof (induction cs arbitrary: a)
  case Nil
  then show ?case by simp
next
  case (Cons c cs)
  have "Max (insert (max a (f c)) (f ` set cs)) = Max (insert a (insert (f c) (f ` set cs)))"
    by (cases "f ` set cs = {}") (simp_all add: max.assoc)
  then show ?case by (simp add: Cons.IH)
qed

text \<open>
  C9. For a non-empty cell list, \<open>autoFitView\<close> makes one call that sets the view. With
  the bounding box of all cells of the state (no filter is applied), each side moved
  outwards by a tenth of the box's extent in that dimension, the target is the midpoint of
  the padded box. If the container's width and height and both padded extents are
  positive, the zoom is the smaller of the binary logarithms of container width over padded
  width and container height over padded height, and the transition lasts 1000 ms;
  otherwise the zoom is \<open>-1\<close> and the transition lasts 0 ms. Numbers are reals here, so
  the statement is about the formula and not about rounding.
\<close>

theorem autoFitView_bounding_box:
  "cells s \<noteq> [] \<Longrightarrow>
   (let minX = Min (cell_x ` set (cells s)); maxX = Max (cell_x ` set (cells s));
        minY = Min (cell_y ` set (cells s)); maxY = Max (cell_y ` set (cells s));
        paddedMinX = minX - (maxX - minX) * 0.1; paddedMaxX = maxX + (maxX - minX) * 0.1;
        paddedMinY = minY - (maxY - minY) * 0.1; paddedMaxY = maxY + (maxY - minY) * 0.1;
        paddedWidth = paddedMaxX - paddedMinX; paddedHeight = paddedMaxY - paddedMinY;
        containerWidth = (case container pg of Some (w, h) \<Rightarrow> real w | None \<Rightarrow> 0);
        containerHeight = (case container pg of Some (w, h) \<Rightarrow> real h | None \<Rightarrow> 0)
    in autoFitView pg s =
         [if containerWidth > 0 \<and> containerHeight > 0 \<and> paddedWidth > 0 \<and> paddedHeight > 0
          then SetInitialViewState ((paddedMinX + paddedMaxX) / 2) ((paddedMinY + paddedMaxY) / 2)
                 (min (log 2 (containerWidth / paddedWidth))
                      (log 2 (containerHeight / paddedHeight))) 1000
          else SetInitialViewState ((paddedMinX + paddedMaxX) / 2) ((paddedMinY + paddedMaxY) / 2)
                 (- 1) 0])"
proof -
  assume ne: "cells s \<noteq> []"
  then obtain c0 cs where cs: "cells s = c0 # cs" by (cases "cells s") auto
  show ?thesis
    unfolding autoFitView_def cs Let_def
    by (simp add: foldl_min_Min foldl_max_Max)
qed

text \<open>
  Witness for C9: two cells spanning the box from (0, 0) to (100, 50) in a container of
  800 by 400; the padded box is 120 by 60.
\<close>

theorem autoFitView_bounding_box_witness:
  "cells box_state \<noteq> []
   \<and> autoFitView page_800_400 box_state =
       [SetInitialViewState 50 25 (min (log 2 (800 / 120)) (log 2 (400 / 60))) 1000]"
proof -
  have ne: "cells box_state \<noteq> []" by (simp add: box_state_def)
  have x: "cell_x ` set (cells box_state) = {0, 100}" "cell_y ` set (cells box_state) = {0, 50}"
    by (simp_all add: box_state_def cell_at_def)
  from autoFitView_bounding_box [OF ne, of page_800_400] ne show ?thesis
    unfolding x by (simp add: Let_def page_800_400_def)
qed

subsection \<open>Claim C2\<close>

lemma autoFitView_count:
  "length (filter is_auto_fit (autoFitView pg s)) = (if cells s = [] then 0 else 1)"
  by (simp add: autoFitView_def Let_def is_auto_fit_def split: list.splits)

lemma render_fitted:
  "viewFitted s \<Longrightarrow> viewFitted (fst (render pg s)) \<and> filter is_auto_fit (snd (render pg s)) = []"
  by (simp add: render_def is_auto_fit_def)

lemma render_unfitted:
  "\<not> viewFitted s \<Longrightarrow> deckgl s \<Longrightarrow> cells s \<noteq> [] \<Longrightarrow>
   viewFitted (fst (render pg s)) \<and> length (filter is_auto_fit (snd (render pg s))) = 1"
  by (simp add: render_def is_auto_fit_def autoFitView_count)

lemma render_skipped:
  "\<not> deckgl s \<or> cells s = [] \<Longrightarrow> render pg s = (s, [ConsoleWarn])"
  by (simp add: render_def)

lemma loadRunData_fit:
  assumes "\<forall>c \<in> set (loaded_cells data). cell_class c \<notin> set Object_prototype_names"
  shows "viewFitted (fst (loadRunData pg runId (Received data) sr s))
           = (deckgl s \<and> loaded_cells data \<noteq> [])
         \<and> length (filter is_auto_fit (fst (snd (loadRunData pg runId (Received data) sr s))))
           = (if deckgl s \<and> loaded_cells data \<noteq> [] then 1 else 0)
         \<and> deckgl (fst (loadRunData pg runId (Received data) sr s)) = deckgl s
         \<and> cells (fst (loadRunData pg runId (Received data) sr s)) = loaded_cells data"
proof -
  from loadRunData_unfold [OF assms, where sr = sr and s = s and pg = pg and runId = runId]
  obtain s1 pal where u: "cells s1 = loaded_cells data" "deckgl s1 = deckgl s" "\<not> viewFitted s1"
      "pal = generateColorPalette sr (sort (remdups (map cell_class (loaded_cells data)))) s1"
      "loadRunData pg runId (Received data) sr s =
               (fst (render pg (updateCellClassCounts (fst pal))),
                LegendUpdated # snd (render pg (updateCellClassCounts (fst pal))), True)"
    by blast
  define s3 where "s3 = updateCellClassCounts (fst pal)"
  have f3: "\<not> viewFitted s3" "deckgl s3 = deckgl s" "cells s3 = loaded_cells data"
    by (simp_all add: s3_def u(4) updateCellClassCounts_keeps generateColorPalette_keeps u(1,2,3))
  have eq: "loadRunData pg runId (Received data) sr s
          = (fst (render pg s3), LegendUpdated # snd (render pg s3), True)"
    by (simp add: u(5) s3_def)
  show ?thesis
  proof (cases "deckgl s \<and> loaded_cells data \<noteq> []")
    case True
    with f3 render_unfitted [of s3 pg] show ?thesis
      by (simp add: eq is_auto_fit_def render_keeps)
  next
    case False
    then have "render pg s3 = (s3, [ConsoleWarn])" using f3 by (simp add: render_skipped)
    with False f3 show ?thesis by (auto simp add: eq is_auto_fit_def)
  qed
qed

lemma loadRunData_Failed:
  "loadRunData pg runId Failed sr s = (s, ConsoleError # showNoDataMessage pg runId, False)"
  by (simp add: loadRunData_def)

lemma showNoDataMessage_no_fit: "filter is_auto_fit (showNoDataMessage pg r) = []"
  by (simp add: showNoDataMessage_def is_auto_fit_def)

lemma step_keeps_fitted:
  assumes "viewFitted s" and "\<not> resets_fit e"
  shows "viewFitted (fst (step pg e s)) \<and> filter is_auto_fit (snd (step pg e s)) = []"
proof (cases e)
  case (LoadRunData r resp sr)
  with assms(2) have "resp = Failed" by (cases resp) (auto simp add: resets_fit_def)
  with LoadRunData assms(1) show ?thesis
    by (simp add: loadRunData_Failed showNoDataMessage_no_fit is_auto_fit_def)
next
  case InitializeDeck
  with assms(1) render_fitted [of "s\<lparr>deckgl := True\<rparr>" pg] show ?thesis
    by (simp add: initializeDeck_def)
next
  case Render
  with assms(1) render_fitted [of s pg] show ?thesis by simp
next
  case (ToggleClassVisibility c)
  with assms(1) render_fitted show ?thesis
    by (simp add: toggleClassVisibility_def Let_def is_auto_fit_def)
next
  case ShowAllClasses
  with assms(1) render_fitted show ?thesis
    by (simp add: showAllClasses_def Let_def is_auto_fit_def)
next
  case HideAllClasses
  with assms(1) render_fitted show ?thesis
    by (simp add: hideAllClasses_def Let_def is_auto_fit_def)
next
  case PlaneToggleClick
  with assms(1) render_fitted show ?thesis
    by (simp add: planeToggleClick_def setPlaneFilter_def Let_def is_auto_fit_def split: list.splits)
next
  case (PlaneSliderInput v)
  with assms(1) render_fitted show ?thesis
    by (simp add: planeSliderInput_def)
next
  case (LegendFilterInput t)
  with assms(1) show ?thesis
    by (simp add: legendFilterInput_def is_auto_fit_def)
next
  case (FilterButtonClick sel m)
  with assms(1) render_fitted show ?thesis
    by (simp add: filterButtonClick_def Let_def is_auto_fit_def)
next
  case (SwitchTab t)
  with assms show ?thesis by (simp add: switchTab_def resets_fit_def)
next
  case WindowResize
  with assms(1) show ?thesis by simp
qed

lemma loaded_facts:
  "viewFitted loaded" "deckgl loaded" "cells loaded \<noteq> []"
  using loadRunData_fit [OF sample_classes_plain, of page_800_400 "''run_0''"
          "Received red_green_scheme" viewer0]
  by (simp_all add: loaded_def viewer0_def initial_state_def loaded_cells_def zero_other_geometry_def)

text \<open>
  C2 as stated fails: opening the flowchart and spatial tab clears \<open>viewFitted\<close> and renders,
  so the view is fitted a second time without a new geometry. Below, a run has been loaded
  and fitted; the tab switch clears the flag and its render fits again.
\<close>

theorem viewFitted_counterexample:
  "viewFitted loaded
   \<and> \<not> viewFitted (switchTab_reset loaded)
   \<and> step page_800_400 (SwitchTab ''flowchartSpatial'') loaded
       = render page_800_400 (switchTab_reset loaded)
   \<and> length (filter is_auto_fit (snd (step page_800_400 (SwitchTab ''flowchartSpatial'') loaded))) = 1
   \<and> viewFitted (fst (step page_800_400 (SwitchTab ''flowchartSpatial'') loaded))"
proof -
  have r: "\<not> viewFitted (switchTab_reset loaded)" "deckgl (switchTab_reset loaded)"
    "cells (switchTab_reset loaded) \<noteq> []"
    using loaded_facts by (simp_all add: switchTab_reset_def)
  from render_unfitted [OF r, of page_800_400] r(1) loaded_facts(1) show ?thesis
    by (simp add: switchTab_def)
qed

text \<open>
  C2, as the code has it. A geometry that arrives clears \<open>viewFitted\<close>, and so does opening
  the flowchart and spatial tab. The load renders at its end: afterwards the flag is true
  and the view has been fitted once if there is a deck.gl instance and the run has cells,
  and the flag is false and nothing has been fitted otherwise (the classes of the run are
  taken not to be named like inherited members, so that the load reaches its render). A
  render that finds the flag false, an instance and cells fits the view once and sets the
  flag. Every other event (a render, a class toggle, show all, hide all, the plane toggle
  and slider, the legend filter, the gene filter button, a window resize, another tab, a
  load whose fetch fails) leaves a true flag true and does not fit the view.
\<close>

theorem viewFitted_lifecycle:
  "((\<forall>c \<in> set (loaded_cells data). cell_class c \<notin> set Object_prototype_names) \<longrightarrow>
      viewFitted (fst (loadRunData pg runId (Received data) scheme_resp s))
        = (deckgl s \<and> loaded_cells data \<noteq> [])
      \<and> length (filter is_auto_fit (fst (snd (loadRunData pg runId (Received data) scheme_resp s))))
        = (if deckgl s \<and> loaded_cells data \<noteq> [] then 1 else 0))
   \<and> step pg (SwitchTab ''flowchartSpatial'') s = render pg (s\<lparr> viewFitted := False \<rparr>)
   \<and> (\<not> viewFitted s \<and> deckgl s \<and> cells s \<noteq> [] \<longrightarrow>
        viewFitted (fst (render pg s)) \<and> length (filter is_auto_fit (snd (render pg s))) = 1)
   \<and> (\<not> deckgl s \<or> cells s = [] \<longrightarrow> render pg s = (s, [ConsoleWarn]))
   \<and> (viewFitted s \<and> \<not> resets_fit e \<longrightarrow>
        viewFitted (fst (step pg e s)) \<and> filter is_auto_fit (snd (step pg e s)) = [])"
  using loadRunData_fit [of data pg runId scheme_resp s] render_unfitted [of s pg]
    render_skipped [of s pg] step_keeps_fitted [of s e pg]
  by (simp add: switchTab_def switchTab_reset_def)

text \<open>
  Witness for C2: the sample run is loaded into a viewer with a deck.gl instance and is
  fitted once; a class toggle afterwards keeps the flag and fits nothing; a render after the
  flag was cleared fits once.
\<close>

theorem viewFitted_lifecycle_witness:
  "list_all (\<lambda>c. cell_class c \<notin> set Object_prototype_names) (loaded_cells zero_other_geometry)
   \<and> viewFitted loaded
   \<and> length (filter is_auto_fit
        (fst (snd (loadRunData page_800_400 ''run_0'' (Received zero_other_geometry)
                     (Received red_green_scheme) viewer0)))) = 1
   \<and> \<not> resets_fit (ToggleClassVisibility ''Zero'')
   \<and> viewFitted (fst (step page_800_400 (ToggleClassVisibility ''Zero'') loaded))
   \<and> filter is_auto_fit (snd (step page_800_400 (ToggleClassVisibility ''Zero'') loaded)) = []
   \<and> \<not> viewFitted (switchTab_reset loaded) \<and> deckgl (switchTab_reset loaded)
   \<and> cells (switchTab_reset loaded) \<noteq> []
   \<and> viewFitted (fst (render page_800_400 (switchTab_reset loaded)))
   \<and> \<not> deckgl initial_state
   \<and> render page_800_400 initial_state = (initial_state, [ConsoleWarn])"
proof -
  have d: "deckgl viewer0" "loaded_cells zero_other_geometry \<noteq> []" "\<not> deckgl initial_state"
    by (simp_all add: viewer0_def loaded_cells_def zero_other_geometry_def initial_state_def)
  have t: "\<not> resets_fit (ToggleClassVisibility ''Zero'')" by (simp add: resets_fit_def)
  have r: "\<not> viewFitted (switchTab_reset loaded)" "deckgl (switchTab_reset loaded)"
    "cells (switchTab_reset loaded) \<noteq> []"
    using loaded_facts by (simp_all add: switchTab_reset_def)
  from viewFitted_lifecycle
         [where data = zero_other_geometry and pg = page_800_400 and runId = "''run_0''"
            and scheme_resp = "Received red_green_scheme" and s = viewer0
            and e = "ToggleClassVisibility ''Zero''"]
       viewFitted_lifecycle
         [where data = zero_other_geometry and pg = page_800_400 and runId = "''run_0''"
            and scheme_resp = "Received red_green_scheme" and s = loaded
            and e = "ToggleClassVisibility ''Zero''"]
       viewFitted_lifecycle
         [where data = zero_other_geometry and pg = page_800_400 and runId = "''run_0''"
            and scheme_resp = "Received red_green_scheme" and s = "switchTab_reset loaded"
            and e = "ToggleClassVisibility ''Zero''"]
       viewFitted_lifecycle
         [where data = zero_other_geometry and pg = page_800_400 and runId = "''run_0''"
            and scheme_resp = "Received red_green_scheme" and s = initial_state
            and e = "ToggleClassVisibility ''Zero''"]
       sample_classes_plain d t r loaded_facts
  show ?thesis by (simp add: loaded_def list_all_iff)
qed

section \<open>Colour look-up\<close>

lemma assign_colours_scheme:
  "yao k = Some hex \<Longrightarrow> hex \<noteq> [] \<Longrightarrow> k \<noteq> ''__proto__'' \<Longrightarrow>
   k \<in> set ks \<or> pal k = Some (hexToRgb hex) \<Longrightarrow>
   \<not> snd (assign_colours (Some yao) n i ks pal) \<Longrightarrow>
   fst (assign_colours (Some yao) n i ks pal) k = Some (hexToRgb hex)"
proof (induction ks arbitrary: i pal)
  case Nil
  then show ?case by simp
next
  case (Cons a ks)
  have step: "fst (assign_colours (Some yao) n (i + 1) ks (js_set pal a v)) k = Some (hexToRgb hex)"
    if "\<not> snd (assign_colours (Some yao) n (i + 1) ks (js_set pal a v))"
      and "a = k \<longrightarrow> v = hexToRgb hex" for v
  proof -
    have "k \<in> set ks \<or> js_set pal a v k = Some (hexToRgb hex)"
      using Cons.prems(3,4) that(2) by (auto simp add: js_set_def)
    from Cons.IH [OF Cons.prems(1,2,3) this that(1)] show ?thesis .
  qed
  show ?case
  proof (cases "js_get yao a")
    case (Own h)
    have h: "a = k \<longrightarrow> h = hex" using Own Cons.prems(1) by (auto simp add: js_get_def)
    show ?thesis
    proof (cases "h \<noteq> []")
      case True
      have "\<not> snd (assign_colours (Some yao) n (i + 1) ks (js_set pal a (hexToRgb h)))"
        using Cons.prems(5) Own True by simp
      from step [OF this] h show ?thesis using Own True by simp
    next
      case False
      with h Cons.prems(2) have ak: "a \<noteq> k" by auto
      have "\<not> snd (assign_colours (Some yao) n (i + 1) ks (js_set pal a (fallback_colour n i)))"
        using Cons.prems(5) Own False by simp
      from step [OF this] ak show ?thesis using Own False by simp
    qed
  next
    case Inherited
    with Cons.prems(5) show ?thesis by simp
  next
    case Undefined
    with Cons.prems(1) have ak: "a \<noteq> k" by (auto simp add: js_get_def)
    have "\<not> snd (assign_colours (Some yao) n (i + 1) ks (js_set pal a (fallback_colour n i)))"
      using Cons.prems(5) Undefined by simp
    from step [OF this] ak show ?thesis using Undefined by simp
  qed
qed

lemma generateColorPalette_scheme:
  assumes "yaoColorScheme s = Some yao \<or> (yaoColorScheme s = None \<and> r = Received yao)"
    and "yao k = Some hex" "hex \<noteq> []" "k \<in> set classNames"
    and "k \<noteq> ''__proto__''" "\<not> snd (generateColorPalette r classNames s)"
  shows "cellClassColors (fst (generateColorPalette r classNames s)) k = Some (hexToRgb hex)"
proof -
  define s1 where "s1 = (if yaoColorScheme s = None then loadYaoColorScheme r s else s)"
  have y: "yaoColorScheme s1 = Some yao"
    using assms(1) by (auto simp add: s1_def loadYaoColorScheme_def)
  have "\<not> snd (assign_colours (Some yao) (length classNames) 0 classNames (cellClassColors s1))"
    using assms(6) y by (simp add: generateColorPalette_def Let_def s1_def)
  with assms(2-5)
  have "fst (assign_colours (Some yao) (length classNames) 0 classNames (cellClassColors s1)) k
          = Some (hexToRgb hex)"
    by (intro assign_colours_scheme) simp_all
  then show ?thesis using y
    by (simp add: generateColorPalette_def Let_def s1_def)
qed

lemma loadRunData_colour:
  assumes "\<forall>c \<in> set (loaded_cells data). cell_class c \<notin> set Object_prototype_names"
    and "yaoColorScheme s = Some yao \<or> (yaoColorScheme s = None \<and> sr = Received yao)"
    and "yao k = Some hex" "hex \<noteq> []" "k \<in> cell_class ` set (loaded_cells data)"
  shows "getColorForClass (fst (loadRunData pg runId (Received data) sr s)) k = Own (hexToRgb hex)"
proof -
  let ?cn = "sort (remdups (map cell_class (loaded_cells data)))"
  from loadRunData_unfold [OF assms(1), where sr = sr and s = s and pg = pg and runId = runId]
  obtain s1 pal where u: "pal = generateColorPalette sr ?cn s1"
      "yaoColorScheme s1 = yaoColorScheme s"
      "loadRunData pg runId (Received data) sr s =
               (fst (render pg (updateCellClassCounts (fst pal))),
                LegendUpdated # snd (render pg (updateCellClassCounts (fst pal))), True)"
    by blast
  have plain: "\<forall>k \<in> set ?cn. k \<notin> set Object_prototype_names" using assms(1) by auto
  have k: "k \<in> set ?cn" using assms(5) by auto
  with plain proto_in_names have np: "k \<noteq> ''__proto__''" by auto
  have a2: "yaoColorScheme s1 = Some yao \<or> (yaoColorScheme s1 = None \<and> sr = Received yao)"
    using assms(2) u(2) by simp
  from generateColorPalette_scheme [OF a2 assms(3,4) k np generateColorPalette_ok [OF plain]]
  have "cellClassColors (fst (generateColorPalette sr ?cn s1)) k = Some (hexToRgb hex)" .
  then have "cellClassColors (fst (loadRunData pg runId (Received data) sr s)) k
               = Some (hexToRgb hex)"
    by (simp add: u(3) render_keeps updateCellClassCounts_keeps u(1))
  then show ?thesis by (simp add: getColorForClass_def js_get_def)
qed

lemma sample_hex:
  "hexToRgb ''#ff0000'' = Rgb 255 0 0" "hexToRgb ''#00ff00'' = Rgb 0 255 0"
  by (simp_all add: hexToRgb_def parseInt16_def js_whitespace_def is_hex_digit_def hex_digit_val_def)

lemma sample_scheme_classes:
  "red_green_scheme ''Zero'' = Some ''#ff0000''" "red_green_scheme ''Other'' = Some ''#00ff00''"
  "''Zero'' \<in> cell_class ` set (loaded_cells zero_other_geometry)"
  "''Other'' \<in> cell_class ` set (loaded_cells zero_other_geometry)"
  "yaoColorScheme viewer0 = None"
  by (simp_all add: red_green_scheme_def loaded_cells_def zero_other_geometry_def cell_at_def
        viewer0_def initial_state_def)

subsection \<open>Claim C4\<close>

text \<open>
  C4 as stated fails for the spatial viewer: \<open>getColorForClass\<close> has no override. After
  loading a run whose cells have the classes \<open>Zero\<close> and \<open>Other\<close> under a scheme that
  gives them red and green, the viewer's colour for \<open>Zero\<close> is red and for \<open>Other\<close> is
  green, not black and grey.
\<close>

theorem getColorForClass_counterexample:
  "getColorForClass loaded ''Zero'' = Own (Rgb 255 0 0)
   \<and> getColorForClass loaded ''Other'' = Own (Rgb 0 255 0)
   \<and> getColorForClass loaded ''Zero'' \<noteq> Own (Rgb 0 0 0)"
proof -
  have z: "getColorForClass loaded ''Zero'' = Own (hexToRgb ''#ff0000'')"
    unfolding loaded_def
    by (rule loadRunData_colour [OF sample_classes_plain, where yao = red_green_scheme])
       (simp_all add: sample_scheme_classes)
  have "o": "getColorForClass loaded ''Other'' = Own (hexToRgb ''#00ff00'')"
    unfolding loaded_def
    by (rule loadRunData_colour [OF sample_classes_plain, where yao = red_green_scheme])
       (simp_all add: sample_scheme_classes)
  from z "o" show ?thesis by (simp add: sample_hex)
qed

text \<open>
  C4, as the code has it. The dashboard's \<open>getCellColor\<close> returns black for \<open>Zero\<close> and
  grey for \<open>Other\<close> whatever the loaded scheme holds, before any look-up. The spatial
  viewer's \<open>getColorForClass\<close> returns the palette entry of the class: after a run is
  loaded, a class of the run that the scheme defines (with a non-empty colour) has the
  scheme's colour, \<open>Zero\<close> and \<open>Other\<close> included; the fixed triple 128, 128, 128 is
  returned only for a class without palette entry. (Class names of the run are taken not
  to be names of inherited members, so that the load completes.)
\<close>

theorem colour_lookup_overrides:
  "getCellColor d ''Zero'' = Own ''#000000''
   \<and> getCellColor d ''Other'' = Own ''#999999''
   \<and> ((\<forall>c \<in> set (loaded_cells data). cell_class c \<notin> set Object_prototype_names)
       \<and> (yaoColorScheme s = Some yao \<or> (yaoColorScheme s = None \<and> scheme_resp = Received yao))
       \<and> yao k = Some hex \<and> hex \<noteq> [] \<and> k \<in> cell_class ` set (loaded_cells data) \<longrightarrow>
       getColorForClass (fst (loadRunData pg runId (Received data) scheme_resp s)) k
         = Own (hexToRgb hex))
   \<and> (cellClassColors s k = Some col \<longrightarrow> getColorForClass s k = Own col)
   \<and> (cellClassColors s k = None \<and> k \<notin> set Object_prototype_names \<longrightarrow>
        getColorForClass s k = Own (Rgb 128 128 128))"
  using loadRunData_colour [of data s yao scheme_resp k hex pg runId]
  by (simp add: getCellColor_def getColorForClass_def js_get_def)

text \<open>
  Witness for C4: the sample run under the red and green scheme, and a class that the
  palette of the fresh viewer does not have.
\<close>

theorem colour_lookup_overrides_witness:
  "list_all (\<lambda>c. cell_class c \<notin> set Object_prototype_names) (loaded_cells zero_other_geometry)
   \<and> yaoColorScheme viewer0 = None
   \<and> red_green_scheme ''Zero'' = Some ''#ff0000''
   \<and> ''Zero'' \<in> cell_class ` set (loaded_cells zero_other_geometry)
   \<and> getColorForClass
        (fst (loadRunData page_800_400 ''run_0'' (Received zero_other_geometry)
               (Received red_green_scheme) viewer0)) ''Zero'' = Own (Rgb 255 0 0)
   \<and> cellClassColors viewer0 ''Zero'' = None \<and> ''Zero'' \<notin> set Object_prototype_names
   \<and> getColorForClass viewer0 ''Zero'' = Own (Rgb 128 128 128)
   \<and> cellClassColors (viewer0\<lparr> cellClassColors := [''Zero'' \<mapsto> Rgb 1 2 3] \<rparr>) ''Zero''
       = Some (Rgb 1 2 3)
   \<and> getColorForClass (viewer0\<lparr> cellClassColors := [''Zero'' \<mapsto> Rgb 1 2 3] \<rparr>) ''Zero''
       = Own (Rgb 1 2 3)"
proof -
  have n: "cellClassColors viewer0 ''Zero'' = None" "''Zero'' \<notin> set Object_prototype_names"
    "cellClassColors (viewer0\<lparr> cellClassColors := [''Zero'' \<mapsto> Rgb 1 2 3] \<rparr>) ''Zero''
       = Some (Rgb 1 2 3)"
    by (simp_all add: viewer0_def initial_state_def Object_prototype_names_def)
  from colour_lookup_overrides
         [where data = zero_other_geometry and s = viewer0 and yao = red_green_scheme
            and scheme_resp = "Received red_green_scheme" and k = "''Zero''"
            and hex = "''#ff0000''" and pg = page_800_400 and runId = "''run_0''"]
       colour_lookup_overrides
         [where data = zero_other_geometry
            and s = "viewer0\<lparr> cellClassColors := [''Zero'' \<mapsto> Rgb 1 2 3] \<rparr>"
            and yao = red_green_scheme
            and scheme_resp = "Received red_green_scheme" and k = "''Zero''"
            and hex = "''#ff0000''" and pg = page_800_400 and runId = "''run_0''"
            and col = "Rgb 1 2 3"]
       sample_classes_plain sample_scheme_classes n
  show ?thesis by (simp add: sample_hex list_all_iff)
qed

section \<open>Sankey projection\<close>

lemma simplifyClassLabel_range: "simplifyClassLabel l \<in> set SIMPLIFIED_CLASSES"
  by (simp add: simplifyClassLabel_def SIMPLIFIED_CLASSES_def)

lemma add_count_keys:
  "map fst (add_count acc k c) = (if k \<in> set (map fst acc) then map fst acc else map fst acc @ [k])"
  by (induction acc) (force simp add: image_iff)+

lemma add_count_key_set: "fst ` set (add_count acc k c) = insert k (fst ` set acc)"
proof -
  have "set (map fst (add_count acc k c)) = insert k (set (map fst acc))"
    unfolding add_count_keys by auto
  then show ?thesis by simp
qed

lemma add_count_distinct: "distinct (map fst acc) \<Longrightarrow> distinct (map fst (add_count acc k c))"
  by (simp add: add_count_keys)

lemma add_count_lookup:
  "map_of (add_count acc k c) k' =
     (if k' = k then Some ((case map_of acc k of Some v \<Rightarrow> v | None \<Rightarrow> 0) + c)
      else map_of acc k')"
  by (induction acc) auto

lemma fold_counts_keys:
  "fst ` set (fold_counts acc counts) = fst ` set acc \<union> simplifyClassLabel ` fst ` set counts"
  unfolding fold_counts_def
  by (induction counts arbitrary: acc) (simp_all add: add_count_key_set)

lemma fold_counts_distinct:
  "distinct (map fst acc) \<Longrightarrow> distinct (map fst (fold_counts acc counts))"
  unfolding fold_counts_def
  by (induction counts arbitrary: acc) (simp_all add: add_count_distinct)

lemma fold_counts_lookup:
  "map_of (fold_counts acc counts) k =
     (case map_of acc k of
        Some v \<Rightarrow> Some (v + total_for k counts)
      | None \<Rightarrow> if k \<in> simplifyClassLabel ` fst ` set counts then Some (total_for k counts)
                else None)"
  unfolding fold_counts_def
proof (induction counts arbitrary: acc)
  case Nil
  then show ?case by (simp add: total_for_def split: option.splits)
next
  case (Cons e counts)
  show ?case
    by (simp add: Cons.IH add_count_lookup total_for_def split: option.splits)
qed

lemma simpCounts_fold: "simpCounts counts = fold_counts [] counts"
  by (simp add: simpCounts_def fold_counts_def)

lemma simpCounts_entry:
  assumes "(k, v) \<in> set (simpCounts counts)"
  shows "v = total_for k counts \<and> k \<in> set SIMPLIFIED_CLASSES"
proof -
  have d: "distinct (map fst (simpCounts counts))"
    by (simp add: simpCounts_fold fold_counts_distinct)
  from assms d have "map_of (simpCounts counts) k = Some v" by simp
  then have "v = total_for k counts"
    by (simp add: simpCounts_fold fold_counts_lookup split: if_splits)
  moreover have "k \<in> fst ` set (simpCounts counts)" using assms by force
  then have "k \<in> simplifyClassLabel ` fst ` set counts"
    by (simp add: simpCounts_fold fold_counts_keys)
  then have "k \<in> set SIMPLIFIED_CLASSES" using simplifyClassLabel_range by auto
  ultimately show ?thesis by simp
qed

lemma class_indices:
  assumes "k \<in> set SIMPLIFIED_CLASSES"
  shows "\<exists>i < length SIMPLIFIED_CLASSES. SIMPLIFIED_CLASSES ! i = k
           \<and> js_get classToBeforeIdx k = Own i
           \<and> js_get classToAfterIdx k = Own (i + length SIMPLIFIED_CLASSES)"
proof -
  from assms obtain i where i: "i < length SIMPLIFIED_CLASSES" "SIMPLIFIED_CLASSES ! i = k"
    by (auto simp add: in_set_conv_nth)
  have d: "distinct SIMPLIFIED_CLASSES" by (simp add: SIMPLIFIED_CLASSES_def)
  have "classToBeforeIdx (SIMPLIFIED_CLASSES ! i) = Some ([0 ..< length SIMPLIFIED_CLASSES] ! i)"
    unfolding classToBeforeIdx_def using d i(1) by (intro map_of_zip_nth) simp_all
  then have b: "classToBeforeIdx k = Some i" using i by simp
  have "classToAfterIdx (SIMPLIFIED_CLASSES ! i)
          = Some (map (\<lambda>i. i + length SIMPLIFIED_CLASSES) [0 ..< length SIMPLIFIED_CLASSES] ! i)"
    unfolding classToAfterIdx_def using d i(1) by (intro map_of_zip_nth) simp_all
  then have a: "classToAfterIdx k = Some (i + length SIMPLIFIED_CLASSES)" using i by simp
  from i a b show ?thesis by (auto simp add: js_get_def)
qed

lemma identity_mapped: "t \<in> set (identity_transitions counts) \<Longrightarrow> mapped t"
proof -
  assume "t \<in> set (identity_transitions counts)"
  then have "t_from t \<in> set SIMPLIFIED_CLASSES" "t_to t = t_from t"
    using simpCounts_entry by (auto simp add: identity_transitions_def)
  with class_indices [of "t_from t"] show ?thesis by (auto simp add: mapped_def)
qed

lemma filter_identity_mapped:
  "filter mapped (identity_transitions counts) = identity_transitions counts"
  by (simp add: identity_mapped)

subsection \<open>Claim C8\<close>

text \<open>
  C8. When the alternate dataset has no transitions for the current region and filter, the
  chart is built from the base dataset's class counts for the region: every synthesized
  transition is a self-loop on one of the ten simplified classes, each simplified class
  that some label maps to occurs exactly once, its count is the sum of the counts of the
  labels that map to it, and every such transition becomes a link whose source is the
  position of the class in the fixed order and whose target is that position plus ten.
  The node labels are the ten classes in the fixed order, first with the suffix for the
  base run and then with the suffix for the alternate run, whatever the transitions are.
\<close>

theorem sankey_fallback_identity:
  "(alt_transitions s = None \<and> base_counts s = Inr counts \<longrightarrow>
      renderSankeyChart s = Inr (sankey_of (identity_transitions counts)))
   \<and> (\<forall>t \<in> set (identity_transitions counts).
         t_to t = t_from t \<and> t_from t \<in> set SIMPLIFIED_CLASSES
         \<and> t_count t =
             sum_list (map snd (filter (\<lambda>e. simplifyClassLabel (fst e) = t_from t) counts))
         \<and> (\<exists>i < length SIMPLIFIED_CLASSES. SIMPLIFIED_CLASSES ! i = t_from t
               \<and> js_get classToBeforeIdx (t_from t) = Own i
               \<and> js_get classToAfterIdx (t_to t) = Own (i + 10)))
   \<and> distinct (map t_from (identity_transitions counts))
   \<and> set (map t_from (identity_transitions counts)) = simplifyClassLabel ` fst ` set counts
   \<and> sources (sankey_of (identity_transitions counts))
        = map (\<lambda>t. js_get classToBeforeIdx (t_from t)) (identity_transitions counts)
   \<and> targets (sankey_of (identity_transitions counts))
        = map (\<lambda>t. js_get classToAfterIdx (t_to t)) (identity_transitions counts)
   \<and> link_values (sankey_of (identity_transitions counts))
        = map t_count (identity_transitions counts)
   \<and> nodeLabels (sankey_of ts) =
        [''Astro (Base)'', ''CA1 (Base)'', ''CA2 (Base)'', ''CA3 (Base)'', ''DG (Base)'',
         ''L5 (Base)'', ''L6 (Base)'', ''Oligo (Base)'', ''Other (Base)'', ''Zero (Base)'',
         ''Astro (Alt)'', ''CA1 (Alt)'', ''CA2 (Alt)'', ''CA3 (Alt)'', ''DG (Alt)'',
         ''L5 (Alt)'', ''L6 (Alt)'', ''Oligo (Alt)'', ''Other (Alt)'', ''Zero (Alt)'']"
proof -
  have a: "alt_transitions s = None \<and> base_counts s = Inr counts \<longrightarrow>
      renderSankeyChart s = Inr (sankey_of (identity_transitions counts))"
    by (simp add: renderSankeyChart_def sankey_transitions_def)
  have b: "\<forall>t \<in> set (identity_transitions counts).
         t_to t = t_from t \<and> t_from t \<in> set SIMPLIFIED_CLASSES
         \<and> t_count t =
             sum_list (map snd (filter (\<lambda>e. simplifyClassLabel (fst e) = t_from t) counts))
         \<and> (\<exists>i < length SIMPLIFIED_CLASSES. SIMPLIFIED_CLASSES ! i = t_from t
               \<and> js_get classToBeforeIdx (t_from t) = Own i
               \<and> js_get classToAfterIdx (t_to t) = Own (i + 10))"
  proof
    fix t assume "t \<in> set (identity_transitions counts)"
    then have t: "t_to t = t_from t" "t_from t \<in> set SIMPLIFIED_CLASSES"
      "t_count t = total_for (t_from t) counts"
      using simpCounts_entry by (auto simp add: identity_transitions_def)
    have "length SIMPLIFIED_CLASSES = 10" by (simp add: SIMPLIFIED_CLASSES_def)
    with class_indices [OF t(2)] t show
      "t_to t = t_from t \<and> t_from t \<in> set SIMPLIFIED_CLASSES
         \<and> t_count t =
             sum_list (map snd (filter (\<lambda>e. simplifyClassLabel (fst e) = t_from t) counts))
         \<and> (\<exists>i < length SIMPLIFIED_CLASSES. SIMPLIFIED_CLASSES ! i = t_from t
               \<and> js_get classToBeforeIdx (t_from t) = Own i
               \<and> js_get classToAfterIdx (t_to t) = Own (i + 10))"
      by (auto simp add: total_for_def)
  qed
  have m: "map t_from (identity_transitions counts) = map fst (simpCounts counts)"
    by (simp add: identity_transitions_def comp_def)
  have c: "distinct (map t_from (identity_transitions counts))"
    unfolding m by (simp add: simpCounts_fold fold_counts_distinct)
  have d: "set (map t_from (identity_transitions counts)) = simplifyClassLabel ` fst ` set counts"
    unfolding m by (simp add: simpCounts_fold fold_counts_keys)
  have e: "sources (sankey_of (identity_transitions counts))
        = map (\<lambda>t. js_get classToBeforeIdx (t_from t)) (identity_transitions counts)"
    "targets (sankey_of (identity_transitions counts))
        = map (\<lambda>t. js_get classToAfterIdx (t_to t)) (identity_transitions counts)"
    "link_values (sankey_of (identity_transitions counts))
        = map t_count (identity_transitions counts)"
    by (simp_all add: sankey_of_def filter_identity_mapped)
  have g: "nodeLabels (sankey_of ts) =
        [''Astro (Base)'', ''CA1 (Base)'', ''CA2 (Base)'', ''CA3 (Base)'', ''DG (Base)'',
         ''L5 (Base)'', ''L6 (Base)'', ''Oligo (Base)'', ''Other (Base)'', ''Zero (Base)'',
         ''Astro (Alt)'', ''CA1 (Alt)'', ''CA2 (Alt)'', ''CA3 (Alt)'', ''DG (Alt)'',
         ''L5 (Alt)'', ''L6 (Alt)'', ''Oligo (Alt)'', ''Other (Alt)'', ''Zero (Alt)'']"
    by (simp add: sankey_of_def SIMPLIFIED_CLASSES_def)
  from a b c d e g show ?thesis by blast
qed

text \<open>
  Witness for C8: the base dataset counts 50 cells of \<open>016 CA1-ProS Glut\<close> and 10 of
  \<open>999 Unknown\<close> in region \<open>ca1\<close> and there are no transitions. The links are CA1 to
  CA1 with 50 and Other to Other with 10.
\<close>

lemma sample_counts:
  "alt_transitions (started meta_run_0) = None"
  "base_counts (started meta_run_0) = Inr [(''016 CA1-ProS Glut'', 50), (''999 Unknown'', 10)]"
  by (simp_all add: alt_transitions_def base_counts_def started_state deref_def ca1_dataset_def
        js_get_def filterKey_def)

lemma sample_transitions:
  "identity_transitions [(''016 CA1-ProS Glut'', 50), (''999 Unknown'', 10)]
     = [\<lparr> t_from = ''CA1'', t_to = ''CA1'', t_count = 50 \<rparr>,
        \<lparr> t_from = ''Other'', t_to = ''Other'', t_count = 10 \<rparr>]"
  by (simp add: identity_transitions_def simpCounts_def simplifyClassLabel_def)

lemma sample_indices:
  "js_get classToBeforeIdx ''CA1'' = Own 1" "js_get classToBeforeIdx ''Other'' = Own 8"
  "js_get classToAfterIdx ''CA1'' = Own 11" "js_get classToAfterIdx ''Other'' = Own 18"
  by (simp_all add: js_get_def classToBeforeIdx_def classToAfterIdx_def SIMPLIFIED_CLASSES_def
        upt_rec)

theorem sankey_fallback_identity_witness:
  "alt_transitions (started meta_run_0) = None
   \<and> base_counts (started meta_run_0) = Inr [(''016 CA1-ProS Glut'', 50), (''999 Unknown'', 10)]
   \<and> identity_transitions [(''016 CA1-ProS Glut'', 50), (''999 Unknown'', 10)]
       = [\<lparr> t_from = ''CA1'', t_to = ''CA1'', t_count = 50 \<rparr>,
          \<lparr> t_from = ''Other'', t_to = ''Other'', t_count = 10 \<rparr>]
   \<and> \<lparr> t_from = ''CA1'', t_to = ''CA1'', t_count = 50 \<rparr>
       \<in> set (identity_transitions [(''016 CA1-ProS Glut'', 50), (''999 Unknown'', 10)])
   \<and> (case renderSankeyChart (started meta_run_0) of
         Inl e \<Rightarrow> False
       | Inr chart \<Rightarrow>
           sources chart = [Own 1, Own 8] \<and> targets chart = [Own 11, Own 18]
           \<and> link_values chart = [50, 10] \<and> length (nodeLabels chart) = 20)"
proof -
  let ?counts = "[(''016 CA1-ProS Glut'', 50::nat), (''999 Unknown'', 10)]"
  from sankey_fallback_identity [of "started meta_run_0" ?counts "identity_transitions ?counts"]
  have r: "renderSankeyChart (started meta_run_0) = Inr (sankey_of (identity_transitions ?counts))"
    and src: "sources (sankey_of (identity_transitions ?counts))
        = map (\<lambda>t. js_get classToBeforeIdx (t_from t)) (identity_transitions ?counts)"
    and tgt: "targets (sankey_of (identity_transitions ?counts))
        = map (\<lambda>t. js_get classToAfterIdx (t_to t)) (identity_transitions ?counts)"
    and val: "link_values (sankey_of (identity_transitions ?counts))
        = map t_count (identity_transitions ?counts)"
    and lab: "length (nodeLabels (sankey_of (identity_transitions ?counts))) = 20"
    by (simp_all add: sample_counts)
  from r src tgt val lab show ?thesis
    by (simp add: sample_counts sample_transitions sample_indices)
qed

end
